theory Spec2Isabelle
  imports Complex_Main "HOL-Library.Log_Nat" "HOL-Library.Sublist"
begin

chapter \<open>Model\<close>

section \<open>Strings\<close>

text \<open>
  A JavaScript string is modelled as an Isabelle \<^typ>\<open>string\<close>, one character per UTF-16
  code unit; the strings of the model are those whose code units lie below 256. On these,
  whitespace (the class \<^verbatim>\<open>\s\<close> of a regular expression, and what
  \<^verbatim>\<open>trim\<close> strips) is tab, line feed, vertical tab, form feed, carriage return,
  space and the no-break space \<open>U+00A0\<close>.
\<close>

definition isSpace :: "char \<Rightarrow> bool" where
  "isSpace c = (of_char c \<in> {9, 10, 11, 12, 13, 32, 160 :: nat})"




text \<open>
  \<^verbatim>\<open>toLowerCase\<close> maps \<^verbatim>\<open>A-Z\<close> and the capital letters \<open>U+00C0\<close> to
  \<open>U+00DE\<close> (the multiplication sign \<open>U+00D7\<close> apart) to the letter 32 places
  further on, and leaves every other code unit below 256 unchanged.
\<close>

definition lowerChar :: "char \<Rightarrow> char" where
  "lowerChar c =
     (let n = of_char c :: nat
      in if (65 \<le> n \<and> n \<le> 90) \<or> (192 \<le> n \<and> n \<le> 222 \<and> n \<noteq> 215) then char_of (n + 32) else c)"

definition toLowerCase :: "string \<Rightarrow> string" where
  "toLowerCase s = map lowerChar s"






text \<open>\<^verbatim>\<open>s.startsWith(p)\<close> and \<^verbatim>\<open>s.includes(p)\<close>.\<close>

fun startsWith :: "string \<Rightarrow> string \<Rightarrow> bool" where
  "startsWith s [] = True"
| "startsWith [] (c # p) = False"
| "startsWith (a # s) (c # p) = (a = c \<and> startsWith s p)"

fun includes_str :: "string \<Rightarrow> string \<Rightarrow> bool" where
  "includes_str [] p = (p = [])"
| "includes_str (a # s) p = (startsWith (a # s) p \<or> includes_str s p)"

text \<open>
  \<^verbatim>\<open>s.split(/\s+/).filter(Boolean)\<close>: the maximal runs of non-whitespace characters
  of \<open>s\<close>, in order. The accumulator holds the run being read.
\<close>

fun splitWs :: "string \<Rightarrow> string \<Rightarrow> string list" where
  "splitWs cur [] = (if cur = [] then [] else [cur])"
| "splitWs cur (c # cs) =
     (if isSpace c then (if cur = [] then splitWs [] cs else cur # splitWs [] cs)
      else splitWs (cur @ [c]) cs)"

definition wordsOf :: "string \<Rightarrow> string list" where
  "wordsOf s = splitWs [] s"

text \<open>A value of type \<^verbatim>\<open>string | null\<close> used as a condition: true unless null or empty.\<close>

definition truthy :: "string option \<Rightarrow> bool" where
  "truthy v = (case v of None \<Rightarrow> False | Some s \<Rightarrow> s \<noteq> [])"


section \<open>Double-precision arithmetic\<close>

text \<open>
  A JavaScript number is an IEEE 754 binary64 value. The finite ones are rationals, and
  every arithmetic operation returns the exact result rounded to the nearest value with a
  53-bit significand, ties to the even significand. \<open>fl\<close> is that rounding; the exponent
  range is not bounded here: the values computed below are quotients of two token counts
  and scores of a few hundred at most, far inside the normal range.
  \<^verbatim>\<open>Math.round\<close> is exact: the nearest integer, a tie going up.
\<close>

definition round_even :: "rat \<Rightarrow> int" where
  "round_even r =
     (let f = \<lfloor>r\<rfloor>; d = r - of_int f
      in if d < 1 / 2 then f else if 1 / 2 < d then f + 1 else if even f then f else f + 1)"

text \<open>For \<open>x > 0\<close>, the exponent \<open>e\<close> with \<open>2\<^sup>e \<le> x < 2\<^sup>e\<^sup>+\<^sup>1\<close>.\<close>

definition ilog2 :: "rat \<Rightarrow> int" where
  "ilog2 x =
     (let (p, q) = quotient_of x; k = bitlen p - bitlen q
      in if 2 powi k \<le> x then k else k - 1)"

definition fl :: "rat \<Rightarrow> rat" where
  "fl x =
     (if x = 0 then 0
      else let e = ilog2 \<bar>x\<bar> - 52
           in of_int (round_even (x / 2 powi e)) * 2 powi e)"

definition fadd :: "rat \<Rightarrow> rat \<Rightarrow> rat" where
  "fadd a b = fl (a + b)"

definition fmul :: "rat \<Rightarrow> rat \<Rightarrow> rat" where
  "fmul a b = fl (a * b)"

definition fdiv :: "rat \<Rightarrow> rat \<Rightarrow> rat" where
  "fdiv a b = fl (a / b)"

definition mathRound :: "rat \<Rightarrow> int" where
  "mathRound x = \<lfloor>x + 1 / 2\<rfloor>"


section \<open>Token-set similarity (\<^verbatim>\<open>utils/diffUtils.ts\<close>)\<close>

text \<open>
  \<^verbatim>\<open>calculateSimilarity(str1, str2)\<close>: both strings are lower-cased and split on runs of
  whitespace; \<open>matches\<close> counts the distinct words of the first that the second has,
  \<open>union\<close> the distinct words of both, and the result is
  \<^verbatim>\<open>Math.round((matches / union) * 100)\<close>, a division and a multiplication of doubles.
\<close>

definition calculateSimilarity :: "string \<Rightarrow> string \<Rightarrow> int" where
  "calculateSimilarity str1 str2 =
     (if str1 = [] \<and> str2 = [] then 100
      else if str1 = [] \<or> str2 = [] then 0
      else
        let words1 = wordsOf (toLowerCase str1);
            words2 = wordsOf (toLowerCase str2)
        in if words1 = [] \<and> words2 = [] then 100
           else if words1 = [] \<or> words2 = [] then 0
           else
             let set1 = set words1;
                 set2 = set words2;
                 matches = card (set1 \<inter> set2);
                 union = card (set1 \<union> set2)
             in mathRound (fmul (fdiv (of_nat matches) (of_nat union)) 100))"

text \<open>The set of lower-cased whitespace-separated tokens of a string.\<close>

definition tokens :: "string \<Rightarrow> string set" where
  "tokens s = set (wordsOf (toLowerCase s))"


section \<open>Sections, issues and JSON values (\<^verbatim>\<open>types/index.ts\<close>)\<close>

text \<open>
  \<^verbatim>\<open>interface Section\<close>. The number and the title are \<^verbatim>\<open>string | null\<close>; the level is
  an integer.
\<close>

record Section =
  sec_id :: string
  sec_number :: "string option"
  sec_title :: "string option"
  sec_level :: int
  sec_body :: string
  sec_startIndex :: "nat option"
  sec_endIndex :: "int option"

text \<open>
  A value read from a parsed JSON document; a missing member (\<^verbatim>\<open>undefined\<close>) is
  \<open>None\<close> of \<^typ>\<open>'a option\<close>.
\<close>

datatype json =
    JNull
  | JBool bool
  | JNum rat
  | JStr string
  | JArr "json list"
  | JObj "(string \<times> json) list"

text \<open>
  \<^verbatim>\<open>interface Issue\<close>. The members that the analyzer copies from the language model's
  answer with a type cast hold whatever the answer held.
\<close>

record issue =
  issue_id :: string
  issue_type :: "json option"
  issue_severity :: "json option"
  issue_sectionId :: string
  issue_description :: "json option"
  issue_oldTextSnippet :: "json option"
  issue_newTextSnippet :: "json option"
  issue_suggestedRevision :: "json option"
  issue_category :: string


section \<open>Section aligners\<close>

subsection \<open>The comparison view (\<^verbatim>\<open>ComparisonView.tsx\<close>, \<open>sectionPairs\<close>)\<close>

record section_pair =
  sp_templateSection :: "Section option"
  sp_draftSection :: Section
  sp_matchScore :: rat
  sp_issues :: "issue list"

text \<open>
  \<open>issuesBySectionId\<close>: the issues of the analysis grouped by section id, in order.
  \<open>issuesFor\<close> is the lookup \<^verbatim>\<open>issuesBySectionId.get(id) || []\<close>.
\<close>

definition issuesBySectionId :: "issue list \<Rightarrow> (string \<rightharpoonup> issue list)" where
  "issuesBySectionId allIssues =
     foldl (\<lambda>m i. m(issue_sectionId i \<mapsto>
                      (case m (issue_sectionId i) of None \<Rightarrow> [] | Some existing \<Rightarrow> existing) @ [i]))
       Map.empty allIssues"

definition issuesFor :: "(string \<rightharpoonup> issue list) \<Rightarrow> string \<Rightarrow> issue list" where
  "issuesFor m k = (case m k of None \<Rightarrow> [] | Some xs \<Rightarrow> xs)"

text \<open>
  The score of a template section for a draft section: 100 for equal numbers or 50 when one
  number is a prefix of the other, 0.8 times the title similarity, 0.2 times the similarity
  of the first 500 characters of the bodies, and 10 for equal levels. The sum is
  accumulated in a double. \<open>d08\<close> and \<open>d02\<close> are the doubles that the literals
  \<^verbatim>\<open>0.8\<close> and \<^verbatim>\<open>0.2\<close> denote.
\<close>

definition d08 :: rat where
  "d08 = 3602879701896397 / 2 ^ 52"

definition d02 :: rat where
  "d02 = 3602879701896397 / 2 ^ 54"

definition scoreLenient :: "Section \<Rightarrow> Section \<Rightarrow> rat" where
  "scoreLenient draftSection templateSection =
     (let score = 0;
          score =
            (if truthy (sec_number draftSection) \<and> truthy (sec_number templateSection) then
               (if the (sec_number draftSection) = the (sec_number templateSection) then fadd score 100
                else if startsWith (the (sec_number draftSection)) (the (sec_number templateSection))
                        \<or> startsWith (the (sec_number templateSection)) (the (sec_number draftSection))
                     then fadd score 50
                else score)
             else score);
          score =
            (if truthy (sec_title draftSection) \<and> truthy (sec_title templateSection) then
               fadd score
                 (fmul (of_int (calculateSimilarity (the (sec_title draftSection))
                                                    (the (sec_title templateSection)))) d08)
             else score);
          score =
            fadd score
              (fmul (of_int (calculateSimilarity (take 500 (sec_body draftSection))
                                                 (take 500 (sec_body templateSection)))) d02);
          score = (if sec_level draftSection = sec_level templateSection then fadd score 10 else score)
      in score)"

text \<open>
  The inner loop over the template sections: a section whose id is in \<open>usedTemplateIds\<close>
  is skipped, and a candidate replaces the best one only with a strictly greater score.
  The accumulator is \<open>(bestMatch, bestScore)\<close>.
\<close>

fun bestLenient ::
  "string set \<Rightarrow> Section \<Rightarrow> Section list \<Rightarrow> Section option \<times> rat \<Rightarrow> Section option \<times> rat" where
  "bestLenient usedTemplateIds draftSection [] (bestMatch, bestScore) = (bestMatch, bestScore)"
| "bestLenient usedTemplateIds draftSection (templateSection # rest) (bestMatch, bestScore) =
     (if sec_id templateSection \<in> usedTemplateIds
      then bestLenient usedTemplateIds draftSection rest (bestMatch, bestScore)
      else
        let score = scoreLenient draftSection templateSection
        in if score > bestScore
           then bestLenient usedTemplateIds draftSection rest (Some templateSection, score)
           else bestLenient usedTemplateIds draftSection rest (bestMatch, bestScore))"

text \<open>The outer loop over the draft sections; the accumulator is \<open>(pairs, usedTemplateIds)\<close>.\<close>

fun pairsLoop ::
  "Section list \<Rightarrow> (string \<rightharpoonup> issue list) \<Rightarrow> Section list \<Rightarrow>
   section_pair list \<times> string set \<Rightarrow> section_pair list" where
  "pairsLoop templateSections byId [] (pairs, usedTemplateIds) = pairs"
| "pairsLoop templateSections byId (draftSection # rest) (pairs, usedTemplateIds) =
     (case bestLenient usedTemplateIds draftSection templateSections (None, 0) of
        (bestMatch, bestScore) \<Rightarrow>
          (case bestMatch of
             Some m \<Rightarrow>
               if bestScore \<ge> 30
               then pairsLoop templateSections byId rest
                      (pairs @ [\<lparr>sp_templateSection = Some m, sp_draftSection = draftSection,
                                 sp_matchScore = bestScore,
                                 sp_issues = issuesFor byId (sec_id draftSection)\<rparr>],
                       insert (sec_id m) usedTemplateIds)
               else pairsLoop templateSections byId rest
                      (pairs @ [\<lparr>sp_templateSection = None, sp_draftSection = draftSection,
                                 sp_matchScore = 0,
                                 sp_issues = issuesFor byId (sec_id draftSection)\<rparr>],
                       usedTemplateIds)
           | None \<Rightarrow>
               pairsLoop templateSections byId rest
                 (pairs @ [\<lparr>sp_templateSection = None, sp_draftSection = draftSection,
                            sp_matchScore = 0,
                            sp_issues = issuesFor byId (sec_id draftSection)\<rparr>],
                  usedTemplateIds)))"

definition sectionPairs :: "Section list \<Rightarrow> Section list \<Rightarrow> issue list \<Rightarrow> section_pair list" where
  "sectionPairs templateSections newSections allIssues =
     pairsLoop templateSections (issuesBySectionId allIssues) newSections ([], {})"

subsection \<open>The review dashboard (\<^verbatim>\<open>ReviewDashboard.tsx\<close>, \<open>sectionMatches\<close>)\<close>

datatype match_status = Ok | Warning | Error | New

record section_match =
  sm_draftSection :: Section
  sm_templateSection :: "Section option"
  sm_issues :: "issue list"
  sm_status :: match_status
  sm_isResolved :: bool

text \<open>100 for equal numbers; 80 for equal lower-cased titles, or 40 when one contains the other.\<close>

definition scoreStrict :: "Section \<Rightarrow> Section \<Rightarrow> int" where
  "scoreStrict draftSection templateSection =
     (let score = 0;
          score =
            (if truthy (sec_number draftSection) \<and> truthy (sec_number templateSection) then
               (if the (sec_number draftSection) = the (sec_number templateSection) then score + 100
                else score)
             else score);
          score =
            (if truthy (sec_title draftSection) \<and> truthy (sec_title templateSection) then
               (let t1 = toLowerCase (the (sec_title draftSection));
                    t2 = toLowerCase (the (sec_title templateSection))
                in if t1 = t2 then score + 80
                   else if includes_str t1 t2 \<or> includes_str t2 t1 then score + 40
                   else score)
             else score)
      in score)"

fun bestStrict ::
  "string set \<Rightarrow> Section \<Rightarrow> Section list \<Rightarrow> Section option \<times> int \<Rightarrow> Section option \<times> int" where
  "bestStrict usedTemplateIds draftSection [] (bestMatch, bestScore) = (bestMatch, bestScore)"
| "bestStrict usedTemplateIds draftSection (templateSection # rest) (bestMatch, bestScore) =
     (if sec_id templateSection \<in> usedTemplateIds
      then bestStrict usedTemplateIds draftSection rest (bestMatch, bestScore)
      else
        let score = scoreStrict draftSection templateSection
        in if score > bestScore
           then bestStrict usedTemplateIds draftSection rest (Some templateSection, score)
           else bestStrict usedTemplateIds draftSection rest (bestMatch, bestScore))"

text \<open>
  The status of a draft section: new when unmatched, otherwise error with a high-severity
  issue, warning with any other issue, ok with none.
\<close>

definition statusOf :: "Section option \<Rightarrow> issue list \<Rightarrow> match_status" where
  "statusOf bestMatch issues =
     (let hasHighIssue = list_ex (\<lambda>i. issue_severity i = Some (JStr ''high'')) issues;
          hasMediumIssue = list_ex (\<lambda>i. issue_severity i = Some (JStr ''medium'')) issues
      in if bestMatch = None then New
         else if hasHighIssue then Error
         else if hasMediumIssue \<or> length issues > 0 then Warning
         else Ok)"

fun matchesLoop ::
  "Section list \<Rightarrow> (string \<rightharpoonup> issue list) \<Rightarrow> string set \<Rightarrow> Section list \<Rightarrow>
   section_match list \<times> string set \<Rightarrow> section_match list" where
  "matchesLoop templateSections byId resolvedSections [] (matches, usedTemplateIds) = matches"
| "matchesLoop templateSections byId resolvedSections (draftSection # rest) (matches, usedTemplateIds) =
     (case bestStrict usedTemplateIds draftSection templateSections (None, 0) of
        (bestMatch, bestScore) \<Rightarrow>
          (let accepted = (bestMatch \<noteq> None \<and> bestScore \<ge> 40);
               bestMatch = (if accepted then bestMatch else None);
               usedTemplateIds =
                 (if accepted then insert (sec_id (the bestMatch)) usedTemplateIds
                  else usedTemplateIds);
               issues = issuesFor byId (sec_id draftSection)
           in matchesLoop templateSections byId resolvedSections rest
                (matches @ [\<lparr>sm_draftSection = draftSection, sm_templateSection = bestMatch,
                              sm_issues = issues, sm_status = statusOf bestMatch issues,
                              sm_isResolved = (sec_id draftSection \<in> resolvedSections)\<rparr>],
                 usedTemplateIds)))"

definition sectionMatches ::
  "Section list \<Rightarrow> Section list \<Rightarrow> issue list \<Rightarrow> string set \<Rightarrow> section_match list" where
  "sectionMatches templateSections draftSections allIssues resolvedSections =
     matchesLoop templateSections (issuesBySectionId allIssues) resolvedSections draftSections ([], {})"

subsection \<open>The analysis service (\<^verbatim>\<open>docxParser.ts\<close>, \<open>matchSections\<close>)\<close>

text \<open>
  100 for equal numbers or 50 for a prefix; 80 for equal lower-cased titles or 40 when one
  contains the other; 10 for equal levels. There is no set of used template sections and
  no floor: the best candidate with a positive score is taken.
\<close>

definition scoreMatch :: "Section \<Rightarrow> Section \<Rightarrow> int" where
  "scoreMatch newSection templateSection =
     (let score = 0;
          score =
            (if truthy (sec_number newSection) \<and> truthy (sec_number templateSection) then
               (if the (sec_number newSection) = the (sec_number templateSection) then score + 100
                else if startsWith (the (sec_number newSection)) (the (sec_number templateSection))
                        \<or> startsWith (the (sec_number templateSection)) (the (sec_number newSection))
                     then score + 50
                else score)
             else score);
          score =
            (if truthy (sec_title newSection) \<and> truthy (sec_title templateSection) then
               (let newTitle = toLowerCase (the (sec_title newSection));
                    templateTitle = toLowerCase (the (sec_title templateSection))
                in if newTitle = templateTitle then score + 80
                   else if includes_str newTitle templateTitle \<or> includes_str templateTitle newTitle
                        then score + 40
                   else score)
             else score);
          score = (if sec_level newSection = sec_level templateSection then score + 10 else score)
      in score)"

fun bestMatchLoop :: "Section \<Rightarrow> Section list \<Rightarrow> Section option \<times> int \<Rightarrow> Section option \<times> int" where
  "bestMatchLoop newSection [] (bestMatch, bestScore) = (bestMatch, bestScore)"
| "bestMatchLoop newSection (templateSection # rest) (bestMatch, bestScore) =
     (let score = scoreMatch newSection templateSection
      in if score > bestScore
         then bestMatchLoop newSection rest (Some templateSection, score)
         else bestMatchLoop newSection rest (bestMatch, bestScore))"

text \<open>
  The result is a \<^verbatim>\<open>Map\<close> from draft ids to \<^verbatim>\<open>bestMatch?.id || null\<close>: null
  also when the best match has the empty id.
\<close>

fun matchLoop ::
  "Section list \<Rightarrow> Section list \<Rightarrow> (string \<rightharpoonup> string option) \<Rightarrow> (string \<rightharpoonup> string option)" where
  "matchLoop templateSections [] matches = matches"
| "matchLoop templateSections (newSection # rest) matches =
     (case bestMatchLoop newSection templateSections (None, 0) of
        (bestMatch, bestScore) \<Rightarrow>
          matchLoop templateSections rest
            (matches(sec_id newSection \<mapsto>
               (case bestMatch of
                  None \<Rightarrow> None
                | Some m \<Rightarrow> if sec_id m = [] then None else Some (sec_id m)))))"

definition matchSections :: "Section list \<Rightarrow> Section list \<Rightarrow> (string \<rightharpoonup> string option)" where
  "matchSections templateSections newSections = matchLoop templateSections newSections Map.empty"

subsection \<open>The greedy pass that the two views share\<close>

text \<open>
  Both views run the same pass and differ in the score and the floor: \<open>greedyBest\<close> is
  the inner loop for a score function, \<open>greedyLoop\<close> the outer one, returning for every
  draft section, in order, the template section it is paired with.
\<close>

fun greedyBest ::
  "(Section \<Rightarrow> Section \<Rightarrow> 'a::linorder) \<Rightarrow> string set \<Rightarrow> Section \<Rightarrow> Section list \<Rightarrow>
   Section option \<times> 'a \<Rightarrow> Section option \<times> 'a" where
  "greedyBest score used d [] (bm, bs) = (bm, bs)"
| "greedyBest score used d (t # ts) (bm, bs) =
     (if sec_id t \<in> used then greedyBest score used d ts (bm, bs)
      else if score d t > bs then greedyBest score used d ts (Some t, score d t)
      else greedyBest score used d ts (bm, bs))"

definition greedyChoice ::
  "(Section \<Rightarrow> Section \<Rightarrow> 'a::{linorder,zero}) \<Rightarrow> 'a \<Rightarrow> Section list \<Rightarrow> string set \<Rightarrow> Section \<Rightarrow>
   Section option" where
  "greedyChoice score cutoff ts used d =
     (case greedyBest score used d ts (None, 0) of
        (bm, bs) \<Rightarrow> if bm \<noteq> None \<and> bs \<ge> cutoff then bm else None)"

fun greedyLoop ::
  "(Section \<Rightarrow> Section \<Rightarrow> 'a::{linorder,zero}) \<Rightarrow> 'a \<Rightarrow> Section list \<Rightarrow> Section list \<Rightarrow>
   string set \<Rightarrow> Section option list" where
  "greedyLoop score cutoff ts [] used = []"
| "greedyLoop score cutoff ts (d # ds) used =
     (let c = greedyChoice score cutoff ts used d
      in c # greedyLoop score cutoff ts ds
               (case c of None \<Rightarrow> used | Some m \<Rightarrow> insert (sec_id m) used))"

text \<open>The ids of the template sections that a list of choices has claimed.\<close>

definition claimedIds :: "Section option list \<Rightarrow> string list" where
  "claimedIds cs = map sec_id (List.map_filter (\<lambda>c. c) cs)"


subsection \<open>The alignment a run returns\<close>

text \<open>
  The draft-to-template map that a list of pairs stands for: for every draft section, in
  order, its id and the id of the template section it is paired with, if any.
\<close>

definition alignmentOfPairs :: "section_pair list \<Rightarrow> (string \<times> string option) list" where
  "alignmentOfPairs ps =
     map (\<lambda>p. (sec_id (sp_draftSection p), map_option sec_id (sp_templateSection p))) ps"

definition alignmentOfMatches :: "section_match list \<Rightarrow> (string \<times> string option) list" where
  "alignmentOfMatches ms =
     map (\<lambda>m. (sec_id (sm_draftSection m), map_option sec_id (sm_templateSection m))) ms"

text \<open>A section with the given id, number, title, level and body, for the examples.\<close>

definition mkSection :: "string \<Rightarrow> string option \<Rightarrow> string option \<Rightarrow> int \<Rightarrow> string \<Rightarrow> Section" where
  "mkSection i n t l b =
     \<lparr>sec_id = i, sec_number = n, sec_title = t, sec_level = l, sec_body = b,
      sec_startIndex = None, sec_endIndex = None\<rparr>"


subsection \<open>A worked example\<close>

text \<open>
  A template with two sections and a draft with three: the first two draft sections both
  carry the number 1, the third has no number and a title the template does not have.
\<close>

definition exampleTemplates :: "Section list" where
  "exampleTemplates =
   [mkSection ''t1'' (Some ''1'') (Some ''Scope of Work'') 1 ''The vendor shall deliver.'',
    mkSection ''t2'' (Some ''2'') (Some ''Payment Terms'') 1 ''Net 30 days.'']"

definition exampleDrafts :: "Section list" where
  "exampleDrafts =
   [mkSection ''d1'' (Some ''1'') (Some ''Scope'') 1 ''The vendor shall deliver.'',
    mkSection ''d2'' (Some ''1'') (Some ''Scope of Work'') 1 ''Other'',
    mkSection ''d3'' None (Some ''Random Notes'') 1 ''Nothing'']"


section \<open>Formatting differ (\<^verbatim>\<open>formattingAnalyzer\<close>, \<open>compareSectionFormatting\<close>)\<close>

subsection \<open>Numbers and optional members\<close>

text \<open>
  A number of a formatting record is \<^verbatim>\<open>NaN\<close> (what \<^verbatim>\<open>parseInt\<close> returns for a
  malformed attribute) or a finite value. \<open>numNeq\<close> is \<^verbatim>\<open>!==\<close> on
  \<^verbatim>\<open>number | undefined\<close>: \<^verbatim>\<open>NaN\<close> differs from everything, itself included.
  A number is true as a condition unless it is missing, zero or \<^verbatim>\<open>NaN\<close>.
\<close>

datatype jsnum = NaN | Num rat

definition numNeq :: "jsnum option \<Rightarrow> jsnum option \<Rightarrow> bool" where
  "numNeq a b = (a = Some NaN \<or> b = Some NaN \<or> a \<noteq> b)"

definition numTruthy :: "jsnum option \<Rightarrow> bool" where
  "numTruthy a = (case a of Some (Num r) \<Rightarrow> r \<noteq> 0 | _ \<Rightarrow> False)"

definition boolTruthy :: "bool option \<Rightarrow> bool" where
  "boolTruthy a = (a = Some True)"

text \<open>
  Numbers inside a template literal. \<open>showNat\<close> writes a natural number in decimal.
  \<open>numberToString\<close> writes the sign, the integer part and, of a value that is not an
  integer, the first fractional digit: this is the text JavaScript gives for an integer of
  magnitude at most \<open>2\<^sup>5\<^sup>3\<close> and for half of one, which covers the values
  \<^verbatim>\<open>parseInt(v)\<close> and \<^verbatim>\<open>parseInt(v) / 2\<close> that the parser reads from
  attributes of at most fifteen digits. Of a larger integer JavaScript writes the shortest
  digits that read back as the same number, where \<open>numberToString\<close> writes them all; the
  text of a number enters the description and the two displayed values of a difference
  only.
\<close>

function showNat :: "nat \<Rightarrow> string" where
  "showNat n = (if n < 10 then [char_of (48 + n)] else showNat (n div 10) @ [char_of (48 + n mod 10)])"
  by pat_completeness auto
termination
  by (relation "measure (\<lambda>n. n)") auto

declare showNat.simps [simp del]

definition numberToString :: "jsnum \<Rightarrow> string" where
  "numberToString x =
     (case x of
        NaN \<Rightarrow> ''NaN''
      | Num r \<Rightarrow>
          (let a = \<bar>r\<bar>; whole = nat \<lfloor>a\<rfloor>; tenth = nat \<lfloor>(a - of_int \<lfloor>a\<rfloor>) * 10\<rfloor>
           in (if r < 0 then ''-'' else '''') @ showNat whole
              @ (if a = of_int \<lfloor>a\<rfloor> then '''' else ''.'' @ showNat tenth)))"

definition showOptNum :: "jsnum option \<Rightarrow> string" where
  "showOptNum a = (case a of None \<Rightarrow> ''undefined'' | Some x \<Rightarrow> numberToString x)"

text \<open>
  \<^verbatim>\<open>s || fallback\<close> for an optional string, \<^verbatim>\<open>s.substring(0, n)\<close>, and the
  double-quote character of the descriptions.
\<close>

definition dquote :: string where
  "dquote = [char_of (34 :: nat)]"


definition strOr :: "string option \<Rightarrow> string \<Rightarrow> string" where
  "strOr s fallback = (if truthy s then the s else fallback)"

definition substring0 :: "string \<Rightarrow> nat \<Rightarrow> string" where
  "substring0 s n = take n s"

subsection \<open>Rich sections (\<^verbatim>\<open>types/index.ts\<close>)\<close>

record TextRunFormatting =
  rf_bold :: "bool option"
  rf_italic :: "bool option"
  rf_underline :: "bool option"
  rf_strike :: "bool option"
  rf_fontSize :: "jsnum option"
  rf_fontFamily :: "string option"
  rf_color :: "string option"
  rf_highlight :: "string option"

record ParagraphFormatting =
  pf_alignment :: "string option"
  pf_indentLeft :: "jsnum option"
  pf_indentRight :: "jsnum option"
  pf_indentFirstLine :: "jsnum option"
  pf_spacingBefore :: "jsnum option"
  pf_spacingAfter :: "jsnum option"
  pf_lineSpacing :: "jsnum option"
  pf_styleId :: "string option"
  pf_styleName :: "string option"
  pf_outlineLevel :: "jsnum option"

record RichTextRun =
  run_text :: string
  run_formatting :: TextRunFormatting

record RichParagraph =
  rp_id :: string
  rp_text :: string
  rp_formatting :: ParagraphFormatting
  rp_runs :: "RichTextRun list"
  rp_isHeading :: "bool option"
  rp_headingLevel :: "jsnum option"
  rp_listLevel :: "jsnum option"
  rp_listType :: "string option"

record RichTableCell =
  cell_content :: "RichParagraph list"
  cell_colSpan :: "jsnum option"
  cell_rowSpan :: "jsnum option"
  cell_shading :: "string option"

record RichTableRow =
  row_cells :: "RichTableCell list"
  row_height :: "jsnum option"
  row_isHeader :: "bool option"

record RichTable =
  tbl_id :: string
  tbl_rows :: "RichTableRow list"
  tbl_columns :: jsnum
  tbl_style :: "string option"

record RichSection = Section +
  rs_paragraphs :: "RichParagraph list option"
  rs_tables :: "RichTable list option"

text \<open>An object literal with no member, to which a literal adds the members it names.\<close>

definition noParagraphFormatting :: ParagraphFormatting where
  "noParagraphFormatting =
     \<lparr>pf_alignment = None, pf_indentLeft = None, pf_indentRight = None, pf_indentFirstLine = None,
      pf_spacingBefore = None, pf_spacingAfter = None, pf_lineSpacing = None, pf_styleId = None,
      pf_styleName = None, pf_outlineLevel = None\<rparr>"

definition noRunFormatting :: TextRunFormatting where
  "noRunFormatting =
     \<lparr>rf_bold = None, rf_italic = None, rf_underline = None, rf_strike = None, rf_fontSize = None,
      rf_fontFamily = None, rf_color = None, rf_highlight = None\<rparr>"

subsection \<open>Differences\<close>

datatype severity = High | Medium | Low

datatype difference_type =
  DStyle | DFont | DAlignment | DSpacing | DIndent | DList | DTable | DHeading

datatype fix_type = ApplyTemplateStyle | ApplyTemplateFormatting | ApplyTemplateFont

datatype formatting_payload = ParagraphPayload ParagraphFormatting | RunPayload TextRunFormatting

record Fix =
  fix_type :: fix_type
  fix_templateFormatting :: formatting_payload

record Location =
  loc_sectionId :: string
  loc_paragraphIndex :: "nat option"
  loc_textSnippet :: "string option"

record FormattingDifference =
  fd_id :: string
  fd_type :: difference_type
  fd_description :: string
  fd_templateValue :: string
  fd_draftValue :: string
  fd_severity :: severity
  fd_location :: Location
  fd_fix :: "Fix option"

text \<open>
  \<^verbatim>\<open>differences.push({id: uuidv4(), ...})\<close>: every difference draws one identifier, so
  the difference pushed onto \<open>n\<close> earlier ones gets the \<open>n\<close>-th identifier \<open>uuid n\<close> of the
  call.
\<close>

definition pushDifference ::
  "(nat \<Rightarrow> string) \<Rightarrow> FormattingDifference list \<Rightarrow> difference_type \<Rightarrow> string \<Rightarrow> string \<Rightarrow> string \<Rightarrow>
   severity \<Rightarrow> Location \<Rightarrow> Fix option \<Rightarrow> FormattingDifference list" where
  "pushDifference uuid differences ty description templateValue draftValue sev location fix =
     differences @
       [\<lparr>fd_id = uuid (length differences), fd_type = ty, fd_description = description,
         fd_templateValue = templateValue, fd_draftValue = draftValue, fd_severity = sev,
         fd_location = location, fd_fix = fix\<rparr>]"

subsection \<open>The comparison of one pair of runs\<close>

definition compareRun ::
  "(nat \<Rightarrow> string) \<Rightarrow> string \<Rightarrow> nat \<Rightarrow> RichTextRun \<Rightarrow> RichTextRun \<Rightarrow>
   FormattingDifference list \<Rightarrow> FormattingDifference list" where
  "compareRun uuid sectionId i tRun dRun differences =
     (let location = \<lparr>loc_sectionId = sectionId, loc_paragraphIndex = Some i,
                       loc_textSnippet = Some (substring0 (run_text dRun) 50)\<rparr>;
          tf = run_formatting tRun;
          df = run_formatting dRun;
          differences =
            (if rf_bold tf \<noteq> rf_bold df then
               pushDifference uuid differences DFont
                 (''Bold formatting differs for '' @ dquote @ substring0 (run_text dRun) 30 @ ''...'' @ dquote)
                 (if boolTruthy (rf_bold tf) then ''Bold'' else ''Normal'')
                 (if boolTruthy (rf_bold df) then ''Bold'' else ''Normal'')
                 Medium location
                 (Some \<lparr>fix_type = ApplyTemplateFont,
                        fix_templateFormatting = RunPayload (noRunFormatting\<lparr>rf_bold := rf_bold tf\<rparr>)\<rparr>)
             else differences);
          differences =
            (if rf_italic tf \<noteq> rf_italic df then
               pushDifference uuid differences DFont
                 (''Italic formatting differs for '' @ dquote @ substring0 (run_text dRun) 30 @ ''...'' @ dquote)
                 (if boolTruthy (rf_italic tf) then ''Italic'' else ''Normal'')
                 (if boolTruthy (rf_italic df) then ''Italic'' else ''Normal'')
                 Medium location
                 (Some \<lparr>fix_type = ApplyTemplateFont,
                        fix_templateFormatting = RunPayload (noRunFormatting\<lparr>rf_italic := rf_italic tf\<rparr>)\<rparr>)
             else differences);
          differences =
            (if numNeq (rf_fontSize tf) (rf_fontSize df) \<and> numTruthy (rf_fontSize tf) then
               pushDifference uuid differences DFont
                 (''Font size differs: '' @ showOptNum (rf_fontSize tf) @ ''pt in template vs ''
                    @ (if numTruthy (rf_fontSize df) then showOptNum (rf_fontSize df) else ''default'')
                    @ ''pt in draft'')
                 (showOptNum (rf_fontSize tf) @ ''pt'')
                 ((if numTruthy (rf_fontSize df) then showOptNum (rf_fontSize df) else ''default'') @ ''pt'')
                 High location
                 (Some \<lparr>fix_type = ApplyTemplateFont,
                        fix_templateFormatting = RunPayload (noRunFormatting\<lparr>rf_fontSize := rf_fontSize tf\<rparr>)\<rparr>)
             else differences);
          differences =
            (if rf_fontFamily tf \<noteq> rf_fontFamily df \<and> truthy (rf_fontFamily tf) then
               pushDifference uuid differences DFont
                 (''Font family differs: '' @ dquote @ the (rf_fontFamily tf) @ dquote @ '' in template vs '' @ dquote
                    @ strOr (rf_fontFamily df) ''default'' @ dquote @ '' in draft'')
                 (the (rf_fontFamily tf))
                 (strOr (rf_fontFamily df) ''default'')
                 High location
                 (Some \<lparr>fix_type = ApplyTemplateFont,
                        fix_templateFormatting =
                          RunPayload (noRunFormatting\<lparr>rf_fontFamily := rf_fontFamily tf\<rparr>)\<rparr>)
             else differences)
      in differences)"

subsection \<open>The comparison of one pair of paragraphs\<close>

definition compareParagraph ::
  "(nat \<Rightarrow> string) \<Rightarrow> string \<Rightarrow> nat \<Rightarrow> RichParagraph \<Rightarrow> RichParagraph \<Rightarrow>
   FormattingDifference list \<Rightarrow> FormattingDifference list" where
  "compareParagraph uuid sectionId i tPara dPara differences =
     (let location = \<lparr>loc_sectionId = sectionId, loc_paragraphIndex = Some i,
                       loc_textSnippet = Some (substring0 (rp_text dPara) 50)\<rparr>;
          tf = rp_formatting tPara;
          df = rp_formatting dPara;
          differences =
            (if pf_alignment tf \<noteq> pf_alignment df then
               pushDifference uuid differences DAlignment
                 (''Paragraph alignment differs: '' @ dquote @ strOr (pf_alignment tf) ''left''
                    @ dquote @ '' in template vs '' @ dquote @ strOr (pf_alignment df) ''left'' @ dquote @ '' in draft'')
                 (strOr (pf_alignment tf) ''left'')
                 (strOr (pf_alignment df) ''left'')
                 Medium location
                 (Some \<lparr>fix_type = ApplyTemplateFormatting,
                        fix_templateFormatting =
                          ParagraphPayload (noParagraphFormatting\<lparr>pf_alignment := pf_alignment tf\<rparr>)\<rparr>)
             else differences);
          differences =
            (if pf_styleId tf \<noteq> pf_styleId df \<and> truthy (pf_styleId tf) then
               pushDifference uuid differences DStyle
                 (''Paragraph style differs: '' @ dquote @ strOr (pf_styleName tf) (the (pf_styleId tf))
                    @ dquote @ '' in template vs '' @ dquote
                    @ strOr (pf_styleName df) (strOr (pf_styleId df) ''Normal'') @ dquote @ '' in draft'')
                 (strOr (pf_styleName tf) (strOr (pf_styleId tf) ''Normal''))
                 (strOr (pf_styleName df) (strOr (pf_styleId df) ''Normal''))
                 High location
                 (Some \<lparr>fix_type = ApplyTemplateStyle, fix_templateFormatting = ParagraphPayload tf\<rparr>)
             else differences);
          differences =
            (if numNeq (pf_spacingAfter tf) (pf_spacingAfter df) \<and> numTruthy (pf_spacingAfter tf) then
               pushDifference uuid differences DSpacing
                 ''Paragraph spacing after differs''
                 (showOptNum (pf_spacingAfter tf))
                 (if numTruthy (pf_spacingAfter df) then showOptNum (pf_spacingAfter df) else ''0'')
                 Low location
                 (Some \<lparr>fix_type = ApplyTemplateFormatting,
                        fix_templateFormatting =
                          ParagraphPayload (noParagraphFormatting\<lparr>pf_spacingAfter := pf_spacingAfter tf\<rparr>)\<rparr>)
             else differences);
          differences =
            (if numNeq (pf_indentLeft tf) (pf_indentLeft df) \<and> numTruthy (pf_indentLeft tf) then
               pushDifference uuid differences DIndent
                 ''Left indentation differs''
                 (showOptNum (pf_indentLeft tf))
                 (if numTruthy (pf_indentLeft df) then showOptNum (pf_indentLeft df) else ''0'')
                 Low location
                 (Some \<lparr>fix_type = ApplyTemplateFormatting,
                        fix_templateFormatting =
                          ParagraphPayload (noParagraphFormatting\<lparr>pf_indentLeft := pf_indentLeft tf\<rparr>)\<rparr>)
             else differences);
          differences =
            (if (rp_isHeading tPara \<noteq> rp_isHeading dPara
                 \<or> numNeq (rp_headingLevel tPara) (rp_headingLevel dPara))
                \<and> boolTruthy (rp_isHeading tPara) then
               pushDifference uuid differences DHeading
                 (''Heading level differs: Level '' @ showOptNum (rp_headingLevel tPara)
                    @ '' in template vs ''
                    @ (if boolTruthy (rp_isHeading dPara)
                       then ''Level '' @ showOptNum (rp_headingLevel dPara) else ''not a heading'')
                    @ '' in draft'')
                 (''Heading '' @ showOptNum (rp_headingLevel tPara))
                 (if boolTruthy (rp_isHeading dPara)
                  then ''Heading '' @ showOptNum (rp_headingLevel dPara) else ''Normal'')
                 High location
                 (Some \<lparr>fix_type = ApplyTemplateStyle, fix_templateFormatting = ParagraphPayload tf\<rparr>)
             else differences);
          minRuns = min (length (rp_runs tPara)) (length (rp_runs dPara))
      in foldl (\<lambda>differences j.
                  compareRun uuid sectionId i (rp_runs tPara ! j) (rp_runs dPara ! j) differences)
           differences [0..<minRuns])"

subsection \<open>The comparison of two sections\<close>

text \<open>
  The guard returns the empty list for a null template section and when either section
  has no paragraph list. Paragraphs and runs are compared by position up to the shorter
  list, so every index read is in range. The table counts are compared last, when both
  sections have a table list.
\<close>

definition compareSectionFormatting ::
  "(nat \<Rightarrow> string) \<Rightarrow> RichSection option \<Rightarrow> RichSection \<Rightarrow> FormattingDifference list" where
  "compareSectionFormatting uuid templateSection draftSection =
     (case templateSection of
        None \<Rightarrow> []
      | Some template \<Rightarrow>
          (case rs_paragraphs template of
             None \<Rightarrow> []
           | Some templateParas \<Rightarrow>
               (case rs_paragraphs draftSection of
                  None \<Rightarrow> []
                | Some draftParas \<Rightarrow>
                    (let differences =
                           foldl (\<lambda>differences i.
                                    compareParagraph uuid (sec_id draftSection) i
                                      (templateParas ! i) (draftParas ! i) differences)
                             [] [0..<min (length templateParas) (length draftParas)]
                     in case (rs_tables template, rs_tables draftSection) of
                          (Some tTables, Some dTables) \<Rightarrow>
                            if length tTables \<noteq> length dTables then
                              pushDifference uuid differences DTable
                                (''Table count differs: '' @ showNat (length tTables)
                                   @ '' in template vs '' @ showNat (length dTables) @ '' in draft'')
                                (showNat (length tTables) @ '' tables'')
                                (showNat (length dTables) @ '' tables'')
                                High
                                \<lparr>loc_sectionId = sec_id draftSection, loc_paragraphIndex = None,
                                  loc_textSnippet = None\<rparr>
                                None
                            else differences
                        | _ \<Rightarrow> differences))))"


subsection \<open>The differences a pair of sections calls for\<close>

text \<open>
  The nine attributes the differ compares, in the order in which it compares them: five
  of a paragraph, then four of every run of the paragraph.
\<close>

datatype attribute =
  AAlignment | AStyle | ASpacingAfter | AIndentLeft | AHeading | ABold | AItalic | AFontSize | AFontFamily

definition paragraphAttributes :: "attribute list" where
  "paragraphAttributes = [AAlignment, AStyle, ASpacingAfter, AIndentLeft, AHeading]"

definition runAttributes :: "attribute list" where
  "runAttributes = [ABold, AItalic, AFontSize, AFontFamily]"

fun typeOf :: "attribute \<Rightarrow> difference_type" where
  "typeOf AAlignment = DAlignment"
| "typeOf AStyle = DStyle"
| "typeOf ASpacingAfter = DSpacing"
| "typeOf AIndentLeft = DIndent"
| "typeOf AHeading = DHeading"
| "typeOf ABold = DFont"
| "typeOf AItalic = DFont"
| "typeOf AFontSize = DFont"
| "typeOf AFontFamily = DFont"

fun severityOf :: "attribute \<Rightarrow> severity" where
  "severityOf AAlignment = Medium"
| "severityOf AStyle = High"
| "severityOf ASpacingAfter = Low"
| "severityOf AIndentLeft = Low"
| "severityOf AHeading = High"
| "severityOf ABold = Medium"
| "severityOf AItalic = Medium"
| "severityOf AFontSize = High"
| "severityOf AFontFamily = High"

text \<open>
  When an attribute of the template paragraph counts as different from that of the draft
  paragraph: the two values differ and, for every attribute but the alignment, the
  template has a value (a style id that is not empty, a spacing or an indent that is not
  zero, a heading).
\<close>

fun paragraphDiffers :: "attribute \<Rightarrow> RichParagraph \<Rightarrow> RichParagraph \<Rightarrow> bool" where
  "paragraphDiffers AAlignment t d =
     (pf_alignment (rp_formatting t) \<noteq> pf_alignment (rp_formatting d))"
| "paragraphDiffers AStyle t d =
     (pf_styleId (rp_formatting t) \<noteq> pf_styleId (rp_formatting d) \<and> truthy (pf_styleId (rp_formatting t)))"
| "paragraphDiffers ASpacingAfter t d =
     (numNeq (pf_spacingAfter (rp_formatting t)) (pf_spacingAfter (rp_formatting d))
      \<and> numTruthy (pf_spacingAfter (rp_formatting t)))"
| "paragraphDiffers AIndentLeft t d =
     (numNeq (pf_indentLeft (rp_formatting t)) (pf_indentLeft (rp_formatting d))
      \<and> numTruthy (pf_indentLeft (rp_formatting t)))"
| "paragraphDiffers AHeading t d =
     ((rp_isHeading t \<noteq> rp_isHeading d \<or> numNeq (rp_headingLevel t) (rp_headingLevel d))
      \<and> boolTruthy (rp_isHeading t))"
| "paragraphDiffers a t d = False"

text \<open>
  And of a run: the bold and the italic flags differ; the font sizes differ and the
  template size is not zero; the font families differ and the template family is not
  empty.
\<close>

fun runDiffers :: "attribute \<Rightarrow> TextRunFormatting \<Rightarrow> TextRunFormatting \<Rightarrow> bool" where
  "runDiffers ABold t d = (rf_bold t \<noteq> rf_bold d)"
| "runDiffers AItalic t d = (rf_italic t \<noteq> rf_italic d)"
| "runDiffers AFontSize t d = (numNeq (rf_fontSize t) (rf_fontSize d) \<and> numTruthy (rf_fontSize t))"
| "runDiffers AFontFamily t d = (rf_fontFamily t \<noteq> rf_fontFamily d \<and> truthy (rf_fontFamily t))"
| "runDiffers a t d = False"

text \<open>
  The fix that restores an attribute: for the alignment, the spacing after and the left
  indent a paragraph formatting that holds the template's value of that attribute and
  nothing else; for the style and for the heading the whole formatting record of the
  template paragraph; for an attribute of a run a run formatting that holds the
  template's value of that attribute and nothing else.
\<close>

fun paragraphFix :: "attribute \<Rightarrow> RichParagraph \<Rightarrow> Fix" where
  "paragraphFix AAlignment t =
     \<lparr>fix_type = ApplyTemplateFormatting,
      fix_templateFormatting =
        ParagraphPayload (noParagraphFormatting\<lparr>pf_alignment := pf_alignment (rp_formatting t)\<rparr>)\<rparr>"
| "paragraphFix ASpacingAfter t =
     \<lparr>fix_type = ApplyTemplateFormatting,
      fix_templateFormatting =
        ParagraphPayload (noParagraphFormatting\<lparr>pf_spacingAfter := pf_spacingAfter (rp_formatting t)\<rparr>)\<rparr>"
| "paragraphFix AIndentLeft t =
     \<lparr>fix_type = ApplyTemplateFormatting,
      fix_templateFormatting =
        ParagraphPayload (noParagraphFormatting\<lparr>pf_indentLeft := pf_indentLeft (rp_formatting t)\<rparr>)\<rparr>"
| "paragraphFix a t =
     \<lparr>fix_type = ApplyTemplateStyle, fix_templateFormatting = ParagraphPayload (rp_formatting t)\<rparr>"

fun runFix :: "attribute \<Rightarrow> TextRunFormatting \<Rightarrow> Fix" where
  "runFix AItalic t =
     \<lparr>fix_type = ApplyTemplateFont,
      fix_templateFormatting = RunPayload (noRunFormatting\<lparr>rf_italic := rf_italic t\<rparr>)\<rparr>"
| "runFix AFontSize t =
     \<lparr>fix_type = ApplyTemplateFont,
      fix_templateFormatting = RunPayload (noRunFormatting\<lparr>rf_fontSize := rf_fontSize t\<rparr>)\<rparr>"
| "runFix AFontFamily t =
     \<lparr>fix_type = ApplyTemplateFont,
      fix_templateFormatting = RunPayload (noRunFormatting\<lparr>rf_fontFamily := rf_fontFamily t\<rparr>)\<rparr>"
| "runFix a t =
     \<lparr>fix_type = ApplyTemplateFont,
      fix_templateFormatting = RunPayload (noRunFormatting\<lparr>rf_bold := rf_bold t\<rparr>)\<rparr>"

text \<open>
  What is read off a difference: its type, its severity, the index of the paragraph it
  is located at, and its fix.
\<close>

type_synonym outcome = "difference_type \<times> severity \<times> nat option \<times> Fix option"

definition outcome :: "FormattingDifference \<Rightarrow> outcome" where
  "outcome d = (fd_type d, fd_severity d, loc_paragraphIndex (fd_location d), fd_fix d)"

text \<open>
  The differences called for by the runs at one position of the paragraphs at index \<open>i\<close>,
  by the two paragraphs at index \<open>i\<close>, and by two sections with paragraph lists \<open>tps\<close> and
  \<open>dps\<close>: one for every attribute that differs, with the fix of that attribute taken from
  the template; runs and paragraphs are paired by position up to the shorter list; a
  difference of the table counts comes last and has neither a paragraph nor a fix.
\<close>

definition expectedRun :: "nat \<Rightarrow> RichTextRun \<Rightarrow> RichTextRun \<Rightarrow> outcome list" where
  "expectedRun i tRun dRun =
     map (\<lambda>a. (DFont, severityOf a, Some i, Some (runFix a (run_formatting tRun))))
       (filter (\<lambda>a. runDiffers a (run_formatting tRun) (run_formatting dRun)) runAttributes)"

definition expectedParagraph :: "nat \<Rightarrow> RichParagraph \<Rightarrow> RichParagraph \<Rightarrow> outcome list" where
  "expectedParagraph i tPara dPara =
     map (\<lambda>a. (typeOf a, severityOf a, Some i, Some (paragraphFix a tPara)))
       (filter (\<lambda>a. paragraphDiffers a tPara dPara) paragraphAttributes)
     @ concat (map (\<lambda>j. expectedRun i (rp_runs tPara ! j) (rp_runs dPara ! j))
                 [0..<min (length (rp_runs tPara)) (length (rp_runs dPara))])"

definition expectedTables :: "RichTable list option \<Rightarrow> RichTable list option \<Rightarrow> outcome list" where
  "expectedTables tTables dTables =
     (case (tTables, dTables) of
        (Some ts, Some ds) \<Rightarrow> if length ts \<noteq> length ds then [(DTable, High, None, None)] else []
      | _ \<Rightarrow> [])"

definition expectedSection :: "RichSection \<Rightarrow> RichSection \<Rightarrow> outcome list" where
  "expectedSection template draft =
     (case (rs_paragraphs template, rs_paragraphs draft) of
        (Some tps, Some dps) \<Rightarrow>
          concat (map (\<lambda>i. expectedParagraph i (tps ! i) (dps ! i)) [0..<min (length tps) (length dps)])
          @ expectedTables (rs_tables template) (rs_tables draft)
      | _ \<Rightarrow> [])"

subsection \<open>Example sections\<close>

definition exampleUuid :: "nat \<Rightarrow> string" where
  "exampleUuid n = ''id-'' @ showNat n"

definition mkRichSection ::
  "string \<Rightarrow> RichParagraph list option \<Rightarrow> RichTable list option \<Rightarrow> RichSection" where
  "mkRichSection i paragraphs tables =
     \<lparr>sec_id = i, sec_number = None, sec_title = None, sec_level = 1, sec_body = [],
      sec_startIndex = None, sec_endIndex = None, rs_paragraphs = paragraphs, rs_tables = tables\<rparr>"

definition mkParagraph ::
  "string \<Rightarrow> ParagraphFormatting \<Rightarrow> RichTextRun list \<Rightarrow> bool option \<Rightarrow> jsnum option \<Rightarrow> RichParagraph" where
  "mkParagraph text formatting runs isHeading headingLevel =
     \<lparr>rp_id = ''p'', rp_text = text, rp_formatting = formatting, rp_runs = runs,
      rp_isHeading = isHeading, rp_headingLevel = headingLevel, rp_listLevel = None,
      rp_listType = None\<rparr>"

text \<open>
  One paragraph with one run on each side: the template run is bold at 11 points, the
  draft run is not bold, at 11 points.
\<close>

definition scenarioTemplatePara :: RichParagraph where
  "scenarioTemplatePara =
     mkParagraph ''Fees'' noParagraphFormatting
       [\<lparr>run_text = ''Fees'',
         run_formatting = noRunFormatting\<lparr>rf_bold := Some True, rf_fontSize := Some (Num 11)\<rparr>\<rparr>]
       None None"

definition scenarioDraftPara :: RichParagraph where
  "scenarioDraftPara =
     mkParagraph ''Fees'' noParagraphFormatting
       [\<lparr>run_text = ''Fees'',
         run_formatting = noRunFormatting\<lparr>rf_bold := Some False, rf_fontSize := Some (Num 11)\<rparr>\<rparr>]
       None None"

definition scenarioTemplate :: RichSection where
  "scenarioTemplate = mkRichSection ''t'' (Some [scenarioTemplatePara]) None"

definition scenarioDraft :: RichSection where
  "scenarioDraft = mkRichSection ''d'' (Some [scenarioDraftPara]) None"

text \<open>
  One centred paragraph on each side, of style \<open>Heading1\<close> in the template and \<open>Normal\<close>
  in the draft.
\<close>

definition styleTemplate :: RichSection where
  "styleTemplate =
     mkRichSection ''t''
       (Some [mkParagraph ''Scope''
                (noParagraphFormatting\<lparr>pf_alignment := Some ''center'', pf_styleId := Some ''Heading1''\<rparr>)
                [] None None])
       None"

definition styleDraft :: RichSection where
  "styleDraft =
     mkRichSection ''d''
       (Some [mkParagraph ''Scope''
                (noParagraphFormatting\<lparr>pf_alignment := Some ''center'', pf_styleId := Some ''Normal''\<rparr>)
                [] None None])
       None"

text \<open>
  Two paragraphs on each side. In the first every attribute of the paragraph and of its
  first run differs, and a second run on the template side has no partner; the second
  paragraph differs in the italic flag and the font family of its run only. The template
  has one table, the draft none.
\<close>

definition mixedTemplate :: RichSection where
  "mixedTemplate =
     mkRichSection ''t''
       (Some [mkParagraph ''Scope''
                (noParagraphFormatting\<lparr>pf_alignment := Some ''center'', pf_indentLeft := Some (Num 720),
                   pf_spacingAfter := Some (Num 120), pf_styleId := Some ''Heading1''\<rparr>)
                [\<lparr>run_text = ''Scope'',
                  run_formatting = noRunFormatting\<lparr>rf_bold := Some True, rf_italic := Some False,
                    rf_fontSize := Some (Num 14), rf_fontFamily := Some ''Arial''\<rparr>\<rparr>,
                 \<lparr>run_text = '' of work'', run_formatting = noRunFormatting\<lparr>rf_bold := Some True\<rparr>\<rparr>]
                (Some True) (Some (Num 1)),
              mkParagraph ''The supplier delivers.'' noParagraphFormatting
                [\<lparr>run_text = ''The supplier delivers.'',
                  run_formatting = noRunFormatting\<lparr>rf_italic := Some True, rf_fontSize := Some (Num 11),
                    rf_fontFamily := Some ''Calibri''\<rparr>\<rparr>]
                None None])
       (Some [\<lparr>tbl_id = ''tb'', tbl_rows = [], tbl_columns = Num 2, tbl_style = None\<rparr>])"

definition mixedDraft :: RichSection where
  "mixedDraft =
     mkRichSection ''d''
       (Some [mkParagraph ''Scope''
                (noParagraphFormatting\<lparr>pf_alignment := Some ''left'', pf_indentLeft := Some (Num 360),
                   pf_spacingAfter := Some (Num 240), pf_styleId := Some ''Normal''\<rparr>)
                [\<lparr>run_text = ''Scope'',
                  run_formatting = noRunFormatting\<lparr>rf_italic := Some True, rf_fontSize := Some (Num 12),
                    rf_fontFamily := Some ''Times''\<rparr>\<rparr>]
                None None,
              mkParagraph ''The supplier delivers.'' noParagraphFormatting
                [\<lparr>run_text = ''The supplier delivers.'',
                  run_formatting = noRunFormatting\<lparr>rf_fontSize := Some (Num 11),
                    rf_fontFamily := Some ''Arial''\<rparr>\<rparr>]
                None None])
       (Some [])"

section \<open>Header patterns\<close>




















section \<open>The plain-text segmenter (\<^verbatim>\<open>docxParser.ts\<close>, first version)\<close>











section \<open>The HTML segmenter (\<^verbatim>\<open>docxParser.ts\<close>, \<open>extractSectionsFromHtml\<close>)\<close>


text \<open>
  A title pattern that is a sequence of words: the words, in any letter case, separated
  by whitespace, and nothing else.
\<close>

fun matchPhrase :: "string list \<Rightarrow> string \<Rightarrow> bool" where
  "matchPhrase [] s = False"
| "matchPhrase [w] s = (toLowerCase s = w)"
| "matchPhrase (w # v # ws) s =
     (toLowerCase (take (length w) s) = w
      \<and> (let rest = drop (length w) s
         in rest \<noteq> [] \<and> isSpace (hd rest) \<and> matchPhrase (v # ws) (dropWhile isSpace rest)))"







text \<open>\<^verbatim>\<open>/^table\s+of\s+contents$/i\<close> or \<^verbatim>\<open>/^contents$/i\<close>\<close>

definition isTocMarker :: "string \<Rightarrow> bool" where
  "isTocMarker s = (matchPhrase [''table'', ''of'', ''contents''] s \<or> matchPhrase [''contents''] s)"



subsection \<open>The paragraphs of the HTML\<close>














section \<open>The section analyzer (\<^verbatim>\<open>openaiAnalyzer.ts\<close>)\<close>

text \<open>
  \<^verbatim>\<open>interface ParsedSOW\<close> and \<^verbatim>\<open>interface SectionAnalysis\<close>. The members
  of an analysis that are copied from the answer of the language model hold whatever the
  answer held.
\<close>

record SowMetadata =
  md_title :: "string option"
  md_vendor :: "string option"
  md_client :: "string option"
  md_effectiveDate :: "string option"
  md_totalValue :: "string option"

















subsection \<open>An example run\<close>





section \<open>What the segmenters are compared with\<close>









chapter \<open>Properties\<close>

section \<open>Rounding error of the double-precision operations\<close>

lemma round_even_err: "\<bar>of_int (round_even r) - r\<bar> \<le> 1 / 2"
  unfolding round_even_def Let_def by (auto simp: abs_if) linarith+


lemma ilog2_bounds:
  assumes "0 < x"
  shows "2 powi (ilog2 x) \<le> x" and "x < 2 powi (ilog2 x + 1)"
proof -
  obtain p q where pq: "quotient_of x = (p, q)" by (cases "quotient_of x")
  have q: "0 < q" using quotient_of_denom_pos[OF pq] .
  have x: "x = of_int p / of_int q" using quotient_of_div[OF pq] .
  have p: "0 < p" using assms q unfolding x by (simp add: zero_less_divide_iff)
  define bp where "bp = bitlen p"
  define bq where "bq = bitlen q"
  have bp1: "1 \<le> bp" using p unfolding bp_def by (simp add: bitlen_alt_def)
  have bq1: "1 \<le> bq" using q unfolding bq_def by (simp add: bitlen_alt_def)
  have e1: "(2::rat) powi (bp - 1) = of_int (2 ^ nat (bp - 1))"
    and e2: "(2::rat) powi bp = of_int (2 ^ nat bp)"
    and e3: "(2::rat) powi (bq - 1) = of_int (2 ^ nat (bq - 1))"
    and e4: "(2::rat) powi bq = of_int (2 ^ nat bq)"
    using bp1 bq1 by (simp_all add: power_int_def)
  have P: "(2::rat) powi (bp - 1) \<le> of_int p" "of_int p < (2::rat) powi bp"
    unfolding e1 e2 using bitlen_bounds[OF p] unfolding bp_def[symmetric]
    by (simp_all only: of_int_le_iff of_int_less_iff)
  have Q: "(2::rat) powi (bq - 1) \<le> of_int q" "of_int q < (2::rat) powi bq"
    unfolding e3 e4 using bitlen_bounds[OF q] unfolding bq_def[symmetric]
    by (simp_all only: of_int_le_iff of_int_less_iff)
  have pos: "\<And>n. (0::rat) < 2 powi n" by simp
  have up: "x < 2 powi (bp - bq + 1)"
  proof -
    have "x < 2 powi bp / 2 powi (bq - 1)"
      unfolding x using P Q p q pos by (intro frac_less) simp_all
    also have "\<dots> = 2 powi (bp - (bq - 1))" by (simp add: power_int_diff)
    finally show ?thesis by (simp add: algebra_simps)
  qed
  have lo: "2 powi (bp - bq - 1) < x"
  proof -
    have "2 powi (bp - 1) / 2 powi bq < x"
      unfolding x using P Q p q pos by (intro frac_less2) simp_all
    moreover have "(2::rat) powi (bp - 1) / 2 powi bq = 2 powi (bp - 1 - bq)"
      by (simp add: power_int_diff)
    ultimately show ?thesis by (simp add: algebra_simps)
  qed
  have il: "ilog2 x = (if 2 powi (bp - bq) \<le> x then bp - bq else bp - bq - 1)"
    unfolding ilog2_def pq bp_def bq_def by simp
  show "2 powi (ilog2 x) \<le> x" using lo unfolding il by auto
  show "x < 2 powi (ilog2 x + 1)" using up unfolding il by auto
qed

lemma fl_err:
  assumes "0 < x"
  shows "\<bar>fl x - x\<bar> \<le> x / 2 ^ 53"
proof -
  define e where "e = ilog2 x - 52"
  define y where "y = x / 2 powi e"
  have pe: "(0::rat) < 2 powi e" by simp
  have flx: "fl x = of_int (round_even y) * 2 powi e"
    using assms unfolding fl_def e_def y_def by (simp add: Let_def)
  have xy: "x = y * 2 powi e" unfolding y_def by simp
  have "fl x - x = (of_int (round_even y) - y) * 2 powi e"
    unfolding flx y_def by (simp add: algebra_simps)
  then have "\<bar>fl x - x\<bar> = \<bar>of_int (round_even y) - y\<bar> * 2 powi e"
    by (simp add: abs_mult)
  also have "\<dots> \<le> (1 / 2) * 2 powi e"
    using round_even_err[of y] pe by (intro mult_right_mono) simp_all
  also have "\<dots> = 2 powi (ilog2 x) / 2 ^ 53"
    unfolding e_def by (simp add: power_int_diff)
  also have "\<dots> \<le> x / 2 ^ 53"
    using ilog2_bounds(1)[OF assms] by (intro divide_right_mono) simp_all
  finally show ?thesis .
qed

lemma fl_zero: "fl 0 = 0" by (simp add: fl_def)
lemma fl_one: "fl 1 = 1" by code_simp
lemma fl_hundred: "fl 100 = 100" by code_simp


lemma pct_err:
  assumes "0 < u" "m \<le> u"
  shows "\<bar>fl (fl (of_nat m / of_nat u) * 100) - 100 * of_nat m / of_nat u\<bar> < 1 / 2 ^ 45"
proof (cases "m = 0")
  case True
  then show ?thesis by (simp add: fl_zero)
next
  case False
  define x :: rat where "x = of_nat m / of_nat u"
  define q where "q = fl x"
  define p where "p = fl (q * 100)"
  have x0: "0 < x" using False assms unfolding x_def by simp
  have x1: "x \<le> 1" using assms unfolding x_def by simp
  have qe: "\<bar>q - x\<bar> \<le> x / 2 ^ 53" unfolding q_def using fl_err[OF x0] .
  have qe': "\<bar>q - x\<bar> \<le> 1 / 2 ^ 53"
    using qe x1 by (meson divide_right_mono order_trans zero_le_numeral zero_le_power)
  have q0: "0 < q"
  proof -
    have "x / 2 ^ 53 < x" using x0 by (simp add: field_simps)
    then show ?thesis using qe by linarith
  qed
  have qu: "q \<le> 1 + 1 / 2 ^ 53" using qe' x1 by linarith
  have pe: "\<bar>p - q * 100\<bar> \<le> q * 100 / 2 ^ 53"
    unfolding p_def using fl_err[of "q * 100"] q0 by simp
  have "q * 100 / 2 ^ 53 \<le> (1 + 1 / 2 ^ 53) * 100 / 2 ^ 53"
    using qu by (intro divide_right_mono mult_right_mono) simp_all
  then have pe': "\<bar>p - q * 100\<bar> \<le> (1 + 1 / 2 ^ 53) * 100 / 2 ^ 53"
    using pe by linarith
  have "\<bar>p - 100 * x\<bar> = \<bar>(p - q * 100) + 100 * (q - x)\<bar>" by (simp add: algebra_simps)
  also have "\<dots> \<le> \<bar>p - q * 100\<bar> + \<bar>100 * (q - x)\<bar>" by (rule abs_triangle_ineq)
  also have "\<dots> = \<bar>p - q * 100\<bar> + 100 * \<bar>q - x\<bar>"
    using abs_mult[of 100 "q - x"] by simp
  also have "\<dots> \<le> (1 + 1 / 2 ^ 53) * 100 / 2 ^ 53 + 100 * (1 / 2 ^ 53)"
    by (intro add_mono mult_left_mono pe' qe') simp
  also have "\<dots> < 1 / 2 ^ 45" by simp
  finally show ?thesis unfolding p_def q_def x_def by (simp add: algebra_simps)
qed

lemma pct_range:
  assumes "0 < u" "m \<le> u"
  shows "0 \<le> mathRound (fl (fl (of_nat m / of_nat u) * 100))"
    and "mathRound (fl (fl (of_nat m / of_nat u) * 100)) \<le> 100"
proof -
  define p where "p = fl (fl (of_nat m / of_nat u) * 100)"
  define y :: rat where "y = 100 * of_nat m / of_nat u"
  have e: "\<bar>p - y\<bar> < 1 / 2 ^ 45" unfolding p_def y_def using pct_err[OF assms] .
  have y0: "0 \<le> y" unfolding y_def by simp
  have y1: "y \<le> 100" unfolding y_def using assms by (simp add: field_simps)
  have d: "(1::rat) / 2 ^ 45 < 1 / 2" by simp
  have "0 \<le> p + 1 / 2" using e y0 d by linarith
  then show "0 \<le> mathRound (fl (fl (of_nat m / of_nat u) * 100))"
    unfolding mathRound_def p_def[symmetric] by simp
  have "p + 1 / 2 < 101" using e y1 d by linarith
  then have "\<lfloor>p + 1 / 2\<rfloor> < 101" by (simp add: floor_less_iff)
  then show "mathRound (fl (fl (of_nat m / of_nat u) * 100)) \<le> 100"
    unfolding mathRound_def p_def[symmetric] by simp
qed


lemma pct_round:
  assumes "0 < u" "m \<le> u" "u < 2 ^ 44"
  shows "frac (100 * of_nat m / of_nat u :: rat) \<noteq> 1 / 2 \<Longrightarrow>
           mathRound (fl (fl (of_nat m / of_nat u) * 100)) = round (100 * of_nat m / of_nat u :: rat)"
    and "mathRound (fl (fl (of_nat m / of_nat u) * 100)) = round (100 * of_nat m / of_nat u :: rat)
       \<or> mathRound (fl (fl (of_nat m / of_nat u) * 100)) = round (100 * of_nat m / of_nat u :: rat) - 1"
proof -
  define p where "p = fl (fl (of_nat m / of_nat u) * 100)"
  define y :: rat where "y = 100 * of_nat m / of_nat u"
  define N :: int where "N = 200 * int m + int u"
  define D :: int where "D = 2 * int u"
  define k where "k = N div D"
  define r where "r = N mod D"
  have e: "\<bar>p - y\<bar> < 1 / 2 ^ 45" unfolding p_def y_def using pct_err[OF assms(1,2)] .
  have D0: "0 < D" using assms unfolding D_def by simp
  have yh: "y + 1 / 2 = of_int N / of_int D"
    using assms unfolding y_def N_def D_def by (simp add: field_simps)
  have N: "N = k * D + r" unfolding k_def r_def by simp
  have r: "0 \<le> r" "r < D" unfolding r_def using D0 by simp_all
  have yk: "y + 1 / 2 = of_int k + of_int r / of_int D"
    unfolding yh N using D0 by (simp add: field_simps)
  have fr: "0 \<le> (of_int r / of_int D :: rat)" "(of_int r / of_int D :: rat) < 1"
    using r D0 by simp_all
  have rk: "round y = k"
    unfolding round_def yk using fr by (simp add: floor_unique)
  have Db: "(of_int D :: rat) < 2 ^ 45"
  proof -
    have "D < 2 ^ 45" using assms(3) unfolding D_def by simp
    then have "(of_int D :: rat) < of_int (2 ^ 45)" by (simp only: of_int_less_iff)
    then show ?thesis by simp
  qed
  have step: "(1 :: rat) / 2 ^ 45 < 1 / of_int D"
    using Db D0 by (simp add: field_simps)
  have up: "p + 1 / 2 < of_int k + 1"
  proof -
    have "r + 1 \<le> D" using r by simp
    then have "(of_int (r + 1) :: rat) \<le> of_int D" by (simp only: of_int_le_iff)
    then have "(of_int r + 1) / of_int D \<le> (1::rat)" using D0 by (simp add: field_simps)
    then have "of_int r / of_int D + 1 / of_int D \<le> (1::rat)" by (simp add: add_divide_distrib)
    then show ?thesis using e yk step by linarith
  qed
  have d1: "(1 :: rat) / 2 ^ 45 < 1" by simp
  have lo1: "of_int k - 1 \<le> p + 1 / 2"
    using e yk fr d1 by linarith
  show "mathRound (fl (fl (of_nat m / of_nat u) * 100)) = round (100 * of_nat m / of_nat u :: rat)
       \<or> mathRound (fl (fl (of_nat m / of_nat u) * 100)) = round (100 * of_nat m / of_nat u :: rat) - 1"
  proof -
    have "p + 1 / 2 < of_int (k + 1)" using up by simp
    then have "\<lfloor>p + 1 / 2\<rfloor> < k + 1" by (simp only: floor_less_iff)
    moreover have "of_int (k - 1) \<le> p + 1 / 2" using lo1 by simp
    then have "k - 1 \<le> \<lfloor>p + 1 / 2\<rfloor>" by (simp only: le_floor_iff)
    ultimately show ?thesis
      unfolding mathRound_def p_def[symmetric] y_def[symmetric] rk by linarith
  qed
  show "mathRound (fl (fl (of_nat m / of_nat u) * 100)) = round (100 * of_nat m / of_nat u :: rat)"
    if nh: "frac (100 * of_nat m / of_nat u :: rat) \<noteq> 1 / 2"
  proof -
    have "r \<noteq> 0"
    proof
      assume "r = 0"
      then have "y + 1 / 2 = of_int k" using yk by simp
      then have yk1: "y = of_int (k - 1) + 1 / 2" by simp
      have "frac y = frac (1 / 2 :: rat)" unfolding yk1 by (simp only: frac_add_of_int_left)
      also have "\<dots> = 1 / 2" by (simp add: frac_unique_iff)
      finally have "frac y = 1 / 2" .
      then show False using nh unfolding y_def by simp
    qed
    then have "1 \<le> r" using r by simp
    then have "(of_int 1 :: rat) \<le> of_int r" by (simp only: of_int_le_iff)
    then have "(1 :: rat) / of_int D \<le> of_int r / of_int D"
      using D0 by (intro divide_right_mono) simp_all
    then have "of_int k \<le> p + 1 / 2" using e yk step by linarith
    then have "\<lfloor>p + 1 / 2\<rfloor> = k" using up by (intro floor_unique) simp_all
    then show ?thesis unfolding mathRound_def p_def[symmetric] y_def[symmetric] rk .
  qed
qed



section \<open>Properties of the token-set similarity\<close>

lemma card_inter_le_union: "finite A \<Longrightarrow> finite B \<Longrightarrow> card (A \<inter> B) \<le> card (A \<union> B)"
  by (intro card_mono) auto

lemma tokens_finite: "finite (tokens s)"
  by (simp add: tokens_def)

lemma tokens_nil: "tokens [] = {}"
  by (simp add: tokens_def toLowerCase_def wordsOf_def)

lemma calculateSimilarity_main:
  assumes "tokens a \<union> tokens b \<noteq> {}"
  shows "calculateSimilarity a b =
     mathRound (fl (fl (of_nat (card (tokens a \<inter> tokens b)) / of_nat (card (tokens a \<union> tokens b))) * 100))"
proof -
  have z: "mathRound (fl (fl 0 * 100)) = 0" by code_simp
  show ?thesis
  proof (cases "a = [] \<or> b = [] \<or> wordsOf (toLowerCase a) = [] \<or> wordsOf (toLowerCase b) = []")
    case False
    then show ?thesis by (simp add: calculateSimilarity_def tokens_def Let_def fmul_def fdiv_def)
  next
    case True
    then have e: "tokens a = {} \<or> tokens b = {}"
      using tokens_nil by (auto simp: tokens_def)
    then have i: "tokens a \<inter> tokens b = {}" by auto
    have ne: "\<not> (wordsOf (toLowerCase a) = [] \<and> wordsOf (toLowerCase b) = [])"
      using assms by (auto simp: tokens_def)
    have ne': "\<not> (a = [] \<and> b = [])" using assms by (auto simp: tokens_nil)
    have "calculateSimilarity a b = 0"
      using True ne ne' by (auto simp: calculateSimilarity_def Let_def)
    then show ?thesis by (simp add: i z)
  qed
qed

lemma calculateSimilarity_range: "0 \<le> calculateSimilarity a b \<and> calculateSimilarity a b \<le> 100"
proof (cases "tokens a \<union> tokens b = {}")
  case True
  then have "wordsOf (toLowerCase a) = []" "wordsOf (toLowerCase b) = []"
    by (simp_all add: tokens_def)
  then show ?thesis by (simp add: calculateSimilarity_def)
next
  case False
  then have u: "0 < card (tokens a \<union> tokens b)"
    using tokens_finite by (simp add: card_gt_0_iff)
  have m: "card (tokens a \<inter> tokens b) \<le> card (tokens a \<union> tokens b)"
    by (intro card_inter_le_union tokens_finite)
  show ?thesis
    unfolding calculateSimilarity_main[OF False] using pct_range[OF u m] by simp
qed

lemma calculateSimilarity_self:
  assumes "s \<noteq> []"
  shows "calculateSimilarity s s = 100"
proof (cases "wordsOf (toLowerCase s) = []")
  case True
  then show ?thesis using assms by (simp add: calculateSimilarity_def)
next
  case False
  then have u: "0 < card (set (wordsOf (toLowerCase s)))" by (simp add: card_gt_0_iff)
  have "mathRound (fl (fl 1 * 100)) = 100" by code_simp
  then show ?thesis using assms False u by (simp add: calculateSimilarity_def Let_def fmul_def fdiv_def)
qed


section \<open>The greedy pass\<close>

lemma greedyBest_mono:
  "greedyBest score used d ts (bm0, bs0) = (bm, bs) \<Longrightarrow> bs0 \<le> bs"
proof (induction ts arbitrary: bm0 bs0)
  case Nil
  then show ?case by simp
next
  case (Cons t ts)
  then show ?case by (fastforce split: if_splits)
qed

lemma greedyBest_upper:
  "greedyBest score used d ts (bm0, bs0) = (bm, bs) \<Longrightarrow>
     t \<in> set ts \<Longrightarrow> sec_id t \<notin> used \<Longrightarrow> score d t \<le> bs"
proof (induction ts arbitrary: bm0 bs0)
  case Nil
  then show ?case by simp
next
  case (Cons a ts)
  show ?case
  proof (cases "t = a")
    case True
    show ?thesis
    proof (cases "score d a > bs0")
      case T2: True
      then have "greedyBest score used d ts (Some a, score d a) = (bm, bs)"
        using Cons.prems True by simp
      then show ?thesis using greedyBest_mono True by blast
    next
      case False
      then have "greedyBest score used d ts (bm0, bs0) = (bm, bs)"
        using Cons.prems True by simp
      then have "bs0 \<le> bs" using greedyBest_mono by blast
      then show ?thesis using False True by simp
    qed
  next
    case False
    then have "t \<in> set ts" using Cons.prems by simp
    then show ?thesis using Cons.IH Cons.prems(1,3) by (auto split: if_splits)
  qed
qed

lemma greedyBest_result:
  "greedyBest score used d ts (bm0, bs0) = (bm, bs) \<Longrightarrow>
     (bm = bm0 \<and> bs = bs0) \<or>
     (\<exists>t \<in> set ts. bm = Some t \<and> sec_id t \<notin> used \<and> bs = score d t \<and> bs0 < bs)"
proof (induction ts arbitrary: bm0 bs0)
  case Nil
  then show ?case by simp
next
  case (Cons a ts)
  show ?case
  proof (cases "sec_id a \<notin> used \<and> score d a > bs0")
    case True
    then have g: "greedyBest score used d ts (Some a, score d a) = (bm, bs)"
      using Cons.prems by simp
    from Cons.IH[OF g] show ?thesis
    proof
      assume "bm = Some a \<and> bs = score d a"
      then show ?thesis using True by auto
    next
      assume "\<exists>t\<in>set ts. bm = Some t \<and> sec_id t \<notin> used \<and> bs = score d t \<and> score d a < bs"
      then show ?thesis using True by auto
    qed
  next
    case False
    then have g: "greedyBest score used d ts (bm0, bs0) = (bm, bs)"
      using Cons.prems by (auto split: if_splits)
    from Cons.IH[OF g] show ?thesis by auto
  qed
qed

lemma greedyChoice_Some:
  assumes "greedyChoice score cutoff ts used d = Some t"
  shows "t \<in> set ts" and "sec_id t \<notin> used" and "cutoff \<le> score d t"
    and "\<And>t'. t' \<in> set ts \<Longrightarrow> sec_id t' \<notin> used \<Longrightarrow> score d t' \<le> score d t"
proof -
  obtain bm bs where g: "greedyBest score used d ts (None, 0) = (bm, bs)"
    by (cases "greedyBest score used d ts (None, 0)")
  from assms g have bm: "bm = Some t" and bs: "cutoff \<le> bs"
    by (auto simp: greedyChoice_def split: if_splits)
  from greedyBest_result[OF g] bm
  obtain t0 where t0: "t0 \<in> set ts" "bm = Some t0" "sec_id t0 \<notin> used" "bs = score d t0" by auto
  then have tt: "t0 = t" using bm by simp
  show "t \<in> set ts" using t0 tt by simp
  show "sec_id t \<notin> used" using t0 tt by simp
  show "cutoff \<le> score d t" using t0 tt bs by simp
  show "\<And>t'. t' \<in> set ts \<Longrightarrow> sec_id t' \<notin> used \<Longrightarrow> score d t' \<le> score d t"
    using greedyBest_upper[OF g] t0 tt by simp
qed


lemma claimedIds_Nil: "claimedIds [] = []"
  by (simp add: claimedIds_def)

lemma claimedIds_Cons:
  "claimedIds (c # cs) = (case c of None \<Rightarrow> claimedIds cs | Some m \<Rightarrow> sec_id m # claimedIds cs)"
  by (simp add: claimedIds_def split: option.splits)

lemma claimedIds_append: "claimedIds (xs @ ys) = claimedIds xs @ claimedIds ys"
  by (induction xs) (simp_all add: claimedIds_Nil claimedIds_Cons split: option.splits)

lemma greedyLoop_length: "length (greedyLoop score cutoff ts ds used) = length ds"
  by (induction ds arbitrary: used) (simp_all add: Let_def)

lemma greedyLoop_claims:
  "distinct (claimedIds (greedyLoop score cutoff ts ds used))
   \<and> set (claimedIds (greedyLoop score cutoff ts ds used)) \<inter> used = {}"
proof (induction ds arbitrary: used)
  case Nil
  then show ?case by (simp add: claimedIds_Nil)
next
  case (Cons d ds)
  show ?case
  proof (cases "greedyChoice score cutoff ts used d")
    case None
    then show ?thesis using Cons.IH[of used] by (simp add: claimedIds_Cons)
  next
    case (Some m)
    have "sec_id m \<notin> used" using greedyChoice_Some(2)[OF Some] .
    then show ?thesis using Some Cons.IH[of "insert (sec_id m) used"]
      by (auto simp: claimedIds_Cons)
  qed
qed


lemma bestLenient_greedy:
  "bestLenient used d ts acc = greedyBest scoreLenient used d ts acc"
  by (induction ts arbitrary: acc) (auto simp: Let_def)

lemma bestStrict_greedy:
  "bestStrict used d ts acc = greedyBest scoreStrict used d ts acc"
  by (induction ts arbitrary: acc) (auto simp: Let_def)

lemma pairsLoop_templates:
  "map sp_templateSection (pairsLoop ts byId ds (pairs, used)) =
     map sp_templateSection pairs @ greedyLoop scoreLenient 30 ts ds used"
proof (induction ds arbitrary: pairs used)
  case Nil
  then show ?case by simp
next
  case (Cons d ds)
  show ?case
    by (cases "greedyBest scoreLenient used d ts (None, 0)")
       (auto simp: Cons.IH bestLenient_greedy greedyChoice_def Let_def split: option.splits)
qed

lemma pairsLoop_drafts:
  "map sp_draftSection (pairsLoop ts byId ds (pairs, used)) = map sp_draftSection pairs @ ds"
proof (induction ds arbitrary: pairs used)
  case Nil
  then show ?case by simp
next
  case (Cons d ds)
  show ?case
    by (cases "bestLenient used d ts (None, 0)")
       (auto simp: Cons.IH split: option.splits)
qed

lemma matchesLoop_templates:
  "map sm_templateSection (matchesLoop ts byId res ds (ms, used)) =
     map sm_templateSection ms @ greedyLoop scoreStrict 40 ts ds used"
proof (induction ds arbitrary: ms used)
  case Nil
  then show ?case by simp
next
  case (Cons d ds)
  show ?case
    by (cases "greedyBest scoreStrict used d ts (None, 0)")
       (auto simp: Cons.IH bestStrict_greedy greedyChoice_def Let_def split: option.splits)
qed

lemma matchesLoop_drafts:
  "map sm_draftSection (matchesLoop ts byId res ds (ms, used)) = map sm_draftSection ms @ ds"
proof (induction ds arbitrary: ms used)
  case Nil
  then show ?case by simp
next
  case (Cons d ds)
  show ?case
    by (cases "bestStrict used d ts (None, 0)")
       (auto simp: Cons.IH Let_def split: option.splits)
qed

lemma sectionPairs_templates:
  "map sp_templateSection (sectionPairs ts ds iss) = greedyLoop scoreLenient 30 ts ds {}"
  by (simp add: sectionPairs_def pairsLoop_templates)

lemma sectionPairs_drafts: "map sp_draftSection (sectionPairs ts ds iss) = ds"
  by (simp add: sectionPairs_def pairsLoop_drafts)

lemma sectionMatches_templates:
  "map sm_templateSection (sectionMatches ts ds iss res) = greedyLoop scoreStrict 40 ts ds {}"
  by (simp add: sectionMatches_def matchesLoop_templates)

lemma sectionMatches_drafts: "map sm_draftSection (sectionMatches ts ds iss res) = ds"
  by (simp add: sectionMatches_def matchesLoop_drafts)


lemma nth_claimed_distinct:
  assumes "distinct (claimedIds cs)" "i < j" "j < length cs" "cs ! i = Some t" "cs ! j = Some t'"
  shows "sec_id t \<noteq> sec_id t'"
proof -
  have cs: "cs = take i cs @ [Some t] @ (take (j - i - 1) (drop (Suc i) cs)) @ [Some t'] @ drop (Suc j) cs"
  proof -
    have i: "i < length cs" using assms by simp
    have 1: "cs = take i cs @ cs ! i # drop (Suc i) cs" using i by (simp add: id_take_nth_drop)
    have j': "j - i - 1 < length (drop (Suc i) cs)" using assms by simp
    have 2: "drop (Suc i) cs = take (j - i - 1) (drop (Suc i) cs) @ (drop (Suc i) cs) ! (j - i - 1)
                # drop (Suc (j - i - 1)) (drop (Suc i) cs)"
      using j' by (rule id_take_nth_drop)
    have 3: "(drop (Suc i) cs) ! (j - i - 1) = cs ! j" using assms by simp
    have 4: "drop (Suc (j - i - 1)) (drop (Suc i) cs) = drop (Suc j) cs" using assms by simp
    show ?thesis using 1 2 3 4 assms(4,5) by simp
  qed
  have "distinct (claimedIds (take i cs @ [Some t] @ (take (j - i - 1) (drop (Suc i) cs)) @ [Some t'] @ drop (Suc j) cs))"
    using assms(1) cs by simp
  then show ?thesis
    by (auto simp: claimedIds_append claimedIds_Cons claimedIds_Nil)
qed

lemma alignmentOfPairs_nth:
  "i < length ps \<Longrightarrow> alignmentOfPairs ps ! i =
     (sec_id (map sp_draftSection ps ! i), map_option sec_id (map sp_templateSection ps ! i))"
  by (simp add: alignmentOfPairs_def)

lemma alignmentOfMatches_nth:
  "i < length ms \<Longrightarrow> alignmentOfMatches ms ! i =
     (sec_id (map sm_draftSection ms ! i), map_option sec_id (map sm_templateSection ms ! i))"
  by (simp add: alignmentOfMatches_def)

lemma alignment_injective:
  assumes d: "distinct (claimedIds cs)" and l: "length cs = length ds"
    and al: "al = map (\<lambda>(d, c). (sec_id d, map_option sec_id c)) (zip ds cs)"
    and 1: "(a, Some x) \<in> set al" and 2: "(b, Some x) \<in> set al"
  shows "a = b"
proof -
  from 1 obtain i where i: "i < length al" "al ! i = (a, Some x)" by (auto simp: in_set_conv_nth)
  from 2 obtain j where j: "j < length al" "al ! j = (b, Some x)" by (auto simp: in_set_conv_nth)
  have len: "length al = length cs" using al l by simp
  from i al l obtain t where t: "cs ! i = Some t" "sec_id t = x" "a = sec_id (ds ! i)" by auto
  from j al l obtain t' where t': "cs ! j = Some t'" "sec_id t' = x" "b = sec_id (ds ! j)" by auto
  have "i = j"
  proof (rule ccontr)
    assume "i \<noteq> j"
    then consider "i < j" | "j < i" by linarith
    then show False
    proof cases
      case 1
      then show False using nth_claimed_distinct[OF d 1 _ t(1) t'(1)] j len t t' by simp
    next
      case 2
      then show False using nth_claimed_distinct[OF d 2 _ t'(1) t(1)] i len t t' by simp
    qed
  qed
  then show ?thesis using t t' by simp
qed

lemma alignmentOfPairs_zip:
  "alignmentOfPairs ps =
     map (\<lambda>(d, c). (sec_id d, map_option sec_id c)) (zip (map sp_draftSection ps) (map sp_templateSection ps))"
  by (induction ps) (simp_all add: alignmentOfPairs_def)

lemma alignmentOfMatches_zip:
  "alignmentOfMatches ms =
     map (\<lambda>(d, c). (sec_id d, map_option sec_id c)) (zip (map sm_draftSection ms) (map sm_templateSection ms))"
  by (induction ms) (simp_all add: alignmentOfMatches_def)

lemma matchLoop_add: "matchLoop ts ds m = m ++ matchLoop ts ds Map.empty"
proof (induction ds arbitrary: m)
  case Nil
  then show ?case by simp
next
  case (Cons d ds)
  obtain bm bs where b: "bestMatchLoop d ts (None, 0) = (bm, bs)"
    by (cases "bestMatchLoop d ts (None, 0)")
  define v where "v = (case bm of None \<Rightarrow> None | Some m \<Rightarrow> if sec_id m = [] then None else Some (sec_id m))"
  have step: "\<And>m. matchLoop ts (d # ds) m = matchLoop ts ds (m(sec_id d \<mapsto> v))"
    using b by (simp add: v_def)
  have 1: "matchLoop ts (d # ds) m = m(sec_id d \<mapsto> v) ++ matchLoop ts ds Map.empty"
    unfolding step by (rule Cons.IH)
  have 2: "matchLoop ts (d # ds) Map.empty = [sec_id d \<mapsto> v] ++ matchLoop ts ds Map.empty"
    unfolding step by (rule Cons.IH)
  have "m(sec_id d \<mapsto> v) = m ++ [sec_id d \<mapsto> v]" by simp
  then show ?case unfolding 1 2 by (simp only: map_add_assoc)
qed



section \<open>The formatting differ\<close>

lemma outcome_push:
  "map outcome (if c then pushDifference uuid acc ty de tv dv sev loc fix else acc) =
     map outcome acc @ (if c then [(ty, sev, loc_paragraphIndex loc, fix)] else [])"
  by (simp add: pushDifference_def outcome_def)

lemma map_filter_Cons:
  "map f (filter P (a # as)) = (if P a then [f a] else []) @ map f (filter P as)"
  by simp

lemma compareRun_outcome:
  "map outcome (compareRun uuid sid i tRun dRun acc) = map outcome acc @ expectedRun i tRun dRun"
  unfolding compareRun_def Let_def
  apply (simp only: outcome_push expectedRun_def runAttributes_def map_filter_Cons)
  apply (simp split del: if_split cong: if_cong)
  done

lemma foldl_runs_outcome:
  "map outcome (foldl (\<lambda>a j. compareRun uuid sid i (ts ! j) (ds ! j) a) acc js) =
     map outcome acc @ concat (map (\<lambda>j. expectedRun i (ts ! j) (ds ! j)) js)"
proof (induction js arbitrary: acc)
  case Nil
  then show ?case by simp
next
  case (Cons j js)
  show ?case by (simp add: Cons.IH compareRun_outcome)
qed

lemma compareParagraph_outcome:
  "map outcome (compareParagraph uuid sid i tPara dPara acc) =
     map outcome acc @ expectedParagraph i tPara dPara"
  unfolding compareParagraph_def Let_def
  apply (simp only: foldl_runs_outcome outcome_push expectedParagraph_def paragraphAttributes_def
      map_filter_Cons)
  apply (simp split del: if_split cong: if_cong)
  done

lemma foldl_paragraphs_outcome:
  "map outcome (foldl (\<lambda>a i. compareParagraph uuid sid i (tps ! i) (dps ! i) a) acc js) =
     map outcome acc @ concat (map (\<lambda>i. expectedParagraph i (tps ! i) (dps ! i)) js)"
proof (induction js arbitrary: acc)
  case Nil
  then show ?case by simp
next
  case (Cons j js)
  show ?case by (simp add: Cons.IH compareParagraph_outcome)
qed

lemma compareSectionFormatting_outcome:
  "map outcome (compareSectionFormatting uuid (Some t) d) = expectedSection t d"
proof (cases "rs_paragraphs t")
  case None
  then show ?thesis by (simp add: compareSectionFormatting_def expectedSection_def)
next
  case tp: (Some tps)
  show ?thesis
  proof (cases "rs_paragraphs d")
    case None
    then show ?thesis using tp by (simp add: compareSectionFormatting_def expectedSection_def)
  next
    case dp: (Some dps)
    show ?thesis
      unfolding compareSectionFormatting_def expectedSection_def expectedTables_def Let_def
      by (cases "rs_tables t"; cases "rs_tables d")
         (simp_all add: tp dp foldl_paragraphs_outcome pushDifference_def outcome_def)
  qed
qed

lemma typeOf_paragraph: "a \<in> set paragraphAttributes \<Longrightarrow> typeOf a \<noteq> DTable"
  by (auto simp: paragraphAttributes_def)

lemma expectedSection_fix:
  "(ty, sev, ix, fx) \<in> set (expectedSection t d) \<Longrightarrow> (fx = None) = (ty = DTable)"
  unfolding expectedSection_def expectedTables_def expectedParagraph_def expectedRun_def
  by (auto split: option.splits if_splits dest: typeOf_paragraph)

lemma compareSectionFormatting_no_fix:
  assumes "e \<in> set (compareSectionFormatting uuid templateSection draftSection)"
  shows "(fd_fix e = None) = (fd_type e = DTable)"
proof (cases templateSection)
  case None
  then show ?thesis using assms by (simp add: compareSectionFormatting_def)
next
  case (Some t)
  have "outcome e \<in> set (map outcome (compareSectionFormatting uuid (Some t) draftSection))"
    using assms Some by simp
  then have "(fd_type e, fd_severity e, loc_paragraphIndex (fd_location e), fd_fix e)
               \<in> set (expectedSection t draftSection)"
    by (simp only: compareSectionFormatting_outcome outcome_def)
  then show ?thesis by (rule expectedSection_fix)
qed

lemma scenario_run:
  assumes "run_formatting tRun = noRunFormatting\<lparr>rf_bold := Some True, rf_fontSize := Some (Num 11)\<rparr>"
    and "run_formatting dRun = noRunFormatting\<lparr>rf_bold := Some False, rf_fontSize := Some (Num 11)\<rparr>"
  shows "\<exists>d. compareRun uuid sid i tRun dRun acc = acc @ [d] \<and> fd_type d = DFont \<and> fd_severity d = Medium
           \<and> fd_fix d = Some \<lparr>fix_type = ApplyTemplateFont,
                 fix_templateFormatting = RunPayload (noRunFormatting\<lparr>rf_bold := Some True\<rparr>)\<rparr>"
  unfolding compareRun_def Let_def assms
  by (simp add: noRunFormatting_def pushDifference_def numNeq_def truthy_def)

section \<open>The segmenters\<close>







lemma isTocMarker_Nil: "\<not> isTocMarker []"
  by (simp add: isTocMarker_def toLowerCase_def)





section \<open>The numbering tokens of the plain-text segmenter\<close>



























section \<open>The section analyzer\<close>











subsection \<open>Claim C1: no template section is claimed twice\<close>

text \<open>
  C1, as stated, covers every variant of the aligner. \<open>matchSections\<close> keeps no set of used
  template sections: in the example it maps the draft sections \<open>d1\<close> and \<open>d2\<close> (and
  \<open>d3\<close>, on the level alone) to the template section \<open>t1\<close>.
\<close>

theorem matchSections_not_injective:
  "matchSections exampleTemplates exampleDrafts ''d1'' = Some (Some ''t1'')
   \<and> matchSections exampleTemplates exampleDrafts ''d2'' = Some (Some ''t1'')
   \<and> ''d1'' \<noteq> ''d2''"
  by code_simp

text \<open>
  C1, amended: in the comparison view and in the review dashboard no template-section id is
  paired with two draft sections: the ids of the matched template sections are distinct,
  and two entries of the alignment with the same non-null template id have the same draft
  id. (\<open>matchSections\<close> maps every draft section to its best-scoring template section
  independently of the others.)
\<close>

theorem views_alignment_injective:
  "distinct (claimedIds (map sp_templateSection (sectionPairs ts ds iss)))
   \<and> ((a, Some x) \<in> set (alignmentOfPairs (sectionPairs ts ds iss))
        \<and> (b, Some x) \<in> set (alignmentOfPairs (sectionPairs ts ds iss)) \<longrightarrow> a = b)
   \<and> distinct (claimedIds (map sm_templateSection (sectionMatches ts ds iss res)))
   \<and> ((a, Some x) \<in> set (alignmentOfMatches (sectionMatches ts ds iss res))
        \<and> (b, Some x) \<in> set (alignmentOfMatches (sectionMatches ts ds iss res)) \<longrightarrow> a = b)"
proof (intro conjI impI)
  show d1: "distinct (claimedIds (map sp_templateSection (sectionPairs ts ds iss)))"
    unfolding sectionPairs_templates using greedyLoop_claims by blast
  show d2: "distinct (claimedIds (map sm_templateSection (sectionMatches ts ds iss res)))"
    unfolding sectionMatches_templates using greedyLoop_claims by blast
  show "a = b"
    if "(a, Some x) \<in> set (alignmentOfPairs (sectionPairs ts ds iss))
        \<and> (b, Some x) \<in> set (alignmentOfPairs (sectionPairs ts ds iss))"
  proof -
    have l: "length (map sp_templateSection (sectionPairs ts ds iss))
           = length (map sp_draftSection (sectionPairs ts ds iss))" by simp
    show ?thesis
      using alignment_injective[OF d1 l alignmentOfPairs_zip] that by blast
  qed
  show "a = b"
    if "(a, Some x) \<in> set (alignmentOfMatches (sectionMatches ts ds iss res))
        \<and> (b, Some x) \<in> set (alignmentOfMatches (sectionMatches ts ds iss res))"
  proof -
    have l: "length (map sm_templateSection (sectionMatches ts ds iss res))
           = length (map sm_draftSection (sectionMatches ts ds iss res))" by simp
    show ?thesis
      using alignment_injective[OF d2 l alignmentOfMatches_zip] that by blast
  qed
qed

theorem views_alignment_injective_witness:
  "(''d1'', Some ''t1'') \<in> set (alignmentOfPairs (sectionPairs exampleTemplates exampleDrafts []))
   \<and> (''d1'', Some ''t1'') \<in> set (alignmentOfMatches (sectionMatches exampleTemplates exampleDrafts [] {}))
   \<and> alignmentOfPairs (sectionPairs exampleTemplates exampleDrafts [])
        = [(''d1'', Some ''t1''), (''d2'', None), (''d3'', None)]
   \<and> alignmentOfMatches (sectionMatches exampleTemplates exampleDrafts [] {})
        = [(''d1'', Some ''t1''), (''d2'', None), (''d3'', None)]
   \<and> distinct (claimedIds (map sp_templateSection (sectionPairs exampleTemplates exampleDrafts [])))
   \<and> distinct (claimedIds (map sm_templateSection (sectionMatches exampleTemplates exampleDrafts [] {})))"
proof -
  have e1: "alignmentOfPairs (sectionPairs exampleTemplates exampleDrafts [])
        = [(''d1'', Some ''t1''), (''d2'', None), (''d3'', None)]"
    by code_simp
  have e2: "alignmentOfMatches (sectionMatches exampleTemplates exampleDrafts [] {})
        = [(''d1'', Some ''t1''), (''d2'', None), (''d3'', None)]"
    by code_simp
  have h1: "(''d1'', Some ''t1'') \<in> set (alignmentOfPairs (sectionPairs exampleTemplates exampleDrafts []))"
    unfolding e1 by simp
  have h2: "(''d1'', Some ''t1'') \<in> set (alignmentOfMatches (sectionMatches exampleTemplates exampleDrafts [] {}))"
    unfolding e2 by simp
  note T = views_alignment_injective[of exampleTemplates exampleDrafts "[]" "''d1''" "''t1''" "''d1''" "{}"]
  show ?thesis
    using T h1 h2 e1 e2 by (intro conjI) (erule conjE | assumption)+
qed


subsection \<open>Claim C2: the confidence floor\<close>





subsection \<open>Claim C3: the bodies partition the non-header paragraphs\<close>





subsection \<open>Claim C4: the level of a numbering token\<close>



subsection \<open>Claim C5: bounds and value of the similarity\<close>

text \<open>
  C5, as stated, says that the similarity equals \<open>round (100 \<times> |intersection| / |union|)\<close>.
  The code divides first and multiplies the rounded quotient by 100, both in double
  precision. With 23 common tokens out of 40 the quotient \<open>23/40\<close> is rounded down, the
  product is \<open>57.49999999999999\<close> and \<^verbatim>\<open>Math.round\<close> returns 57, while
  \<open>100 \<times> 23 / 40 = 57.5\<close> rounds to 58.
\<close>

theorem calculateSimilarity_formula_counterexample:
  "calculateSimilarity
     ''a b c d e f g h i j k l m n o p q r s t u v w 0 1 2 3 4 5 6 7''
     ''a b c d e f g h i j k l m n o p q r s t u v w 8 9 x y z A1 B1 C1 D1'' = 57
   \<and> card (tokens ''a b c d e f g h i j k l m n o p q r s t u v w 0 1 2 3 4 5 6 7''
         \<inter> tokens ''a b c d e f g h i j k l m n o p q r s t u v w 8 9 x y z A1 B1 C1 D1'') = 23
   \<and> card (tokens ''a b c d e f g h i j k l m n o p q r s t u v w 0 1 2 3 4 5 6 7''
         \<union> tokens ''a b c d e f g h i j k l m n o p q r s t u v w 8 9 x y z A1 B1 C1 D1'') = 40
   \<and> round (100 * 23 / 40 :: rat) = 58"
  by code_simp

text \<open>
  C5, amended: the similarity is an integer between 0 and 100; it is 100 for a non-empty
  string and itself and for two empty strings, and 0 for an empty and a non-empty string;
  when the two strings have a token at all it is \<^verbatim>\<open>Math.round\<close> of the double-precision
  product \<open>(|intersection| / |union|) \<times> 100\<close>, which is \<open>round (100 \<times> |intersection| / |union|)\<close>
  whenever that ratio is not exactly half-way between two integers, and otherwise that
  value or one less (for fewer than \<open>2\<^sup>4\<^sup>4\<close> tokens).
\<close>

theorem calculateSimilarity_properties:
  "0 \<le> calculateSimilarity a b \<and> calculateSimilarity a b \<le> 100
   \<and> (s \<noteq> [] \<longrightarrow> calculateSimilarity s s = 100)
   \<and> calculateSimilarity [] [] = 100
   \<and> (s \<noteq> [] \<longrightarrow> calculateSimilarity [] s = 0 \<and> calculateSimilarity s [] = 0)
   \<and> (tokens a \<union> tokens b \<noteq> {} \<longrightarrow>
        calculateSimilarity a b =
          mathRound (fmul (fdiv (of_nat (card (tokens a \<inter> tokens b))) (of_nat (card (tokens a \<union> tokens b)))) 100))
   \<and> (tokens a \<union> tokens b \<noteq> {} \<and> card (tokens a \<union> tokens b) < 2 ^ 44 \<longrightarrow>
        (frac (100 * of_nat (card (tokens a \<inter> tokens b)) / of_nat (card (tokens a \<union> tokens b)) :: rat) \<noteq> 1 / 2 \<longrightarrow>
           calculateSimilarity a b =
             round (100 * of_nat (card (tokens a \<inter> tokens b)) / of_nat (card (tokens a \<union> tokens b)) :: rat))
        \<and> (calculateSimilarity a b =
             round (100 * of_nat (card (tokens a \<inter> tokens b)) / of_nat (card (tokens a \<union> tokens b)) :: rat)
           \<or> calculateSimilarity a b =
             round (100 * of_nat (card (tokens a \<inter> tokens b)) / of_nat (card (tokens a \<union> tokens b)) :: rat) - 1))"
proof (intro conjI)
  show "0 \<le> calculateSimilarity a b" "calculateSimilarity a b \<le> 100"
    using calculateSimilarity_range[of a b] by simp_all
  show "s \<noteq> [] \<longrightarrow> calculateSimilarity s s = 100"
    using calculateSimilarity_self[of s] by simp
  show "calculateSimilarity [] [] = 100" by (simp add: calculateSimilarity_def)
  show "s \<noteq> [] \<longrightarrow> calculateSimilarity [] s = 0 \<and> calculateSimilarity s [] = 0"
    by (simp add: calculateSimilarity_def)
  show "tokens a \<union> tokens b \<noteq> {} \<longrightarrow>
        calculateSimilarity a b =
          mathRound (fmul (fdiv (of_nat (card (tokens a \<inter> tokens b))) (of_nat (card (tokens a \<union> tokens b)))) 100)"
    using calculateSimilarity_main[of a b] unfolding fmul_def fdiv_def by simp
  show "tokens a \<union> tokens b \<noteq> {} \<and> card (tokens a \<union> tokens b) < 2 ^ 44 \<longrightarrow>
        (frac (100 * of_nat (card (tokens a \<inter> tokens b)) / of_nat (card (tokens a \<union> tokens b)) :: rat) \<noteq> 1 / 2 \<longrightarrow>
           calculateSimilarity a b =
             round (100 * of_nat (card (tokens a \<inter> tokens b)) / of_nat (card (tokens a \<union> tokens b)) :: rat))
        \<and> (calculateSimilarity a b =
             round (100 * of_nat (card (tokens a \<inter> tokens b)) / of_nat (card (tokens a \<union> tokens b)) :: rat)
           \<or> calculateSimilarity a b =
             round (100 * of_nat (card (tokens a \<inter> tokens b)) / of_nat (card (tokens a \<union> tokens b)) :: rat) - 1)"
  proof (intro impI, elim conjE)
    assume ne: "tokens a \<union> tokens b \<noteq> {}" and b: "card (tokens a \<union> tokens b) < 2 ^ 44"
    have u: "0 < card (tokens a \<union> tokens b)"
      using ne tokens_finite by (simp add: card_gt_0_iff)
    have m: "card (tokens a \<inter> tokens b) \<le> card (tokens a \<union> tokens b)"
      by (intro card_inter_le_union tokens_finite)
    show "(frac (100 * of_nat (card (tokens a \<inter> tokens b)) / of_nat (card (tokens a \<union> tokens b)) :: rat) \<noteq> 1 / 2 \<longrightarrow>
           calculateSimilarity a b =
             round (100 * of_nat (card (tokens a \<inter> tokens b)) / of_nat (card (tokens a \<union> tokens b)) :: rat))
        \<and> (calculateSimilarity a b =
             round (100 * of_nat (card (tokens a \<inter> tokens b)) / of_nat (card (tokens a \<union> tokens b)) :: rat)
           \<or> calculateSimilarity a b =
             round (100 * of_nat (card (tokens a \<inter> tokens b)) / of_nat (card (tokens a \<union> tokens b)) :: rat) - 1)"
      unfolding calculateSimilarity_main[OF ne]
      using pct_round(1)[OF u m b] pct_round(2)[OF u m b] by blast
  qed
qed

theorem calculateSimilarity_properties_witness:
  "''Scope'' \<noteq> [] \<and> calculateSimilarity ''Scope'' ''Scope'' = 100
   \<and> calculateSimilarity [] ''Scope'' = 0
   \<and> tokens ''Payment Terms'' \<union> tokens ''payment terms and conditions'' \<noteq> {}
   \<and> card (tokens ''Payment Terms'' \<union> tokens ''payment terms and conditions'') < 2 ^ 44
   \<and> frac (100 * of_nat (card (tokens ''Payment Terms'' \<inter> tokens ''payment terms and conditions''))
           / of_nat (card (tokens ''Payment Terms'' \<union> tokens ''payment terms and conditions'')) :: rat) \<noteq> 1 / 2
   \<and> calculateSimilarity ''Payment Terms'' ''payment terms and conditions'' =
       round (100 * of_nat (card (tokens ''Payment Terms'' \<inter> tokens ''payment terms and conditions''))
           / of_nat (card (tokens ''Payment Terms'' \<union> tokens ''payment terms and conditions'')) :: rat)
   \<and> calculateSimilarity ''Payment Terms'' ''payment terms and conditions'' = 50"
proof -
  define A where "A = ''Payment Terms''"
  define B where "B = ''payment terms and conditions''"
  define S where "S = ''Scope''"
  have h1: "S \<noteq> []" unfolding S_def by simp
  have c: "card (tokens A \<union> tokens B) = 4"
    unfolding A_def B_def by code_simp
  have h2: "tokens A \<union> tokens B \<noteq> {}" "card (tokens A \<union> tokens B) < 2 ^ 44"
    using c by auto
  have h3: "frac (100 * of_nat (card (tokens A \<inter> tokens B))
           / of_nat (card (tokens A \<union> tokens B)) :: rat) \<noteq> 1 / 2"
    unfolding A_def B_def by code_simp
  have v: "calculateSimilarity A B = 50"
    unfolding A_def B_def by code_simp
  have "S \<noteq> [] \<and> calculateSimilarity S S = 100
   \<and> calculateSimilarity [] S = 0
   \<and> tokens A \<union> tokens B \<noteq> {}
   \<and> card (tokens A \<union> tokens B) < 2 ^ 44
   \<and> frac (100 * of_nat (card (tokens A \<inter> tokens B))
           / of_nat (card (tokens A \<union> tokens B)) :: rat) \<noteq> 1 / 2
   \<and> calculateSimilarity A B =
       round (100 * of_nat (card (tokens A \<inter> tokens B))
           / of_nat (card (tokens A \<union> tokens B)) :: rat)
   \<and> calculateSimilarity A B = 50"
    using calculateSimilarity_properties[of A B S] h1 h2 h3 v by blast
  then show ?thesis unfolding A_def B_def S_def .
qed

subsection \<open>Claim C6: the fix of a difference\<close>

text \<open>
  C6, as stated, says that the fix of a difference equals the template-side value of the
  compared attribute. For a style difference the compared attribute is the style id, and
  the fix carries the whole formatting record of the template paragraph: here the
  alignment \<open>center\<close> beside the style id \<open>Heading1\<close>.
\<close>

theorem style_fix_counterexample:
  "map fd_type (compareSectionFormatting exampleUuid (Some styleTemplate) styleDraft) = [DStyle]
   \<and> map fd_fix (compareSectionFormatting exampleUuid (Some styleTemplate) styleDraft) =
       [Some \<lparr>fix_type = ApplyTemplateStyle,
              fix_templateFormatting =
                ParagraphPayload
                  (noParagraphFormatting\<lparr>pf_alignment := Some ''center'', pf_styleId := Some ''Heading1''\<rparr>)\<rparr>]
   \<and> noParagraphFormatting\<lparr>pf_alignment := Some ''center'', pf_styleId := Some ''Heading1''\<rparr>
       \<noteq> noParagraphFormatting\<lparr>pf_styleId := Some ''Heading1''\<rparr>"
  by code_simp

text \<open>
  C6, amended: read as type, severity, paragraph index and fix, the differences of two
  sections are exactly, in order, one for every compared attribute that differs: for
  every pair of paragraphs at the same index the alignment, the style, the spacing after,
  the left indent and the heading, then for every pair of runs at the same position the
  bold flag, the italic flag, the font size and the font family, and last the table
  count. The fix of each is built from the template paragraph or run that was compared:
  it holds the template's value of the compared attribute and nothing else for an
  alignment, spacing, indent, bold, italic, font-size or font-family difference, and the
  whole formatting record of the template paragraph for a style or heading difference. A
  difference has no fix exactly when it is a table-count difference. A template run that
  is bold at 11 points against a draft run that is not bold at 11 points adds exactly one
  difference, of type font and severity medium, whose fix holds \<open>bold = true\<close> and nothing
  else.
\<close>

theorem fix_from_template:
  "map outcome (compareSectionFormatting uuid (Some template) draft) = expectedSection template draft
   \<and> (d \<in> set (compareSectionFormatting uuid templateSection draftSection) \<longrightarrow>
        (fd_fix d = None) = (fd_type d = DTable))
   \<and> (run_formatting tRun = noRunFormatting\<lparr>rf_bold := Some True, rf_fontSize := Some (Num 11)\<rparr>
        \<and> run_formatting dRun = noRunFormatting\<lparr>rf_bold := Some False, rf_fontSize := Some (Num 11)\<rparr>
      \<longrightarrow> (\<exists>e. compareRun uuid sid i tRun dRun acc = acc @ [e] \<and> fd_type e = DFont
                \<and> fd_severity e = Medium
                \<and> fd_fix e = Some \<lparr>fix_type = ApplyTemplateFont,
                      fix_templateFormatting = RunPayload (noRunFormatting\<lparr>rf_bold := Some True\<rparr>)\<rparr>))"
  using compareSectionFormatting_outcome[of uuid template draft]
    compareSectionFormatting_no_fix[of d uuid templateSection draftSection]
    scenario_run[of tRun dRun uuid sid i acc] by blast

text \<open>
  The theorem at the two example sections, in which all nine attributes differ with values
  that tell them apart, and at the two runs of the scenario.
\<close>

theorem fix_from_template_witness:
  "map outcome (compareSectionFormatting exampleUuid (Some mixedTemplate) mixedDraft) =
     [(DAlignment, Medium, Some 0,
         Some \<lparr>fix_type = ApplyTemplateFormatting,
               fix_templateFormatting =
                 ParagraphPayload (noParagraphFormatting\<lparr>pf_alignment := Some ''center''\<rparr>)\<rparr>),
      (DStyle, High, Some 0,
         Some \<lparr>fix_type = ApplyTemplateStyle,
               fix_templateFormatting =
                 ParagraphPayload
                   (noParagraphFormatting\<lparr>pf_alignment := Some ''center'', pf_indentLeft := Some (Num 720),
                      pf_spacingAfter := Some (Num 120), pf_styleId := Some ''Heading1''\<rparr>)\<rparr>),
      (DSpacing, Low, Some 0,
         Some \<lparr>fix_type = ApplyTemplateFormatting,
               fix_templateFormatting =
                 ParagraphPayload (noParagraphFormatting\<lparr>pf_spacingAfter := Some (Num 120)\<rparr>)\<rparr>),
      (DIndent, Low, Some 0,
         Some \<lparr>fix_type = ApplyTemplateFormatting,
               fix_templateFormatting =
                 ParagraphPayload (noParagraphFormatting\<lparr>pf_indentLeft := Some (Num 720)\<rparr>)\<rparr>),
      (DHeading, High, Some 0,
         Some \<lparr>fix_type = ApplyTemplateStyle,
               fix_templateFormatting =
                 ParagraphPayload
                   (noParagraphFormatting\<lparr>pf_alignment := Some ''center'', pf_indentLeft := Some (Num 720),
                      pf_spacingAfter := Some (Num 120), pf_styleId := Some ''Heading1''\<rparr>)\<rparr>),
      (DFont, Medium, Some 0,
         Some \<lparr>fix_type = ApplyTemplateFont,
               fix_templateFormatting = RunPayload (noRunFormatting\<lparr>rf_bold := Some True\<rparr>)\<rparr>),
      (DFont, Medium, Some 0,
         Some \<lparr>fix_type = ApplyTemplateFont,
               fix_templateFormatting = RunPayload (noRunFormatting\<lparr>rf_italic := Some False\<rparr>)\<rparr>),
      (DFont, High, Some 0,
         Some \<lparr>fix_type = ApplyTemplateFont,
               fix_templateFormatting = RunPayload (noRunFormatting\<lparr>rf_fontSize := Some (Num 14)\<rparr>)\<rparr>),
      (DFont, High, Some 0,
         Some \<lparr>fix_type = ApplyTemplateFont,
               fix_templateFormatting = RunPayload (noRunFormatting\<lparr>rf_fontFamily := Some ''Arial''\<rparr>)\<rparr>),
      (DFont, Medium, Some 1,
         Some \<lparr>fix_type = ApplyTemplateFont,
               fix_templateFormatting = RunPayload (noRunFormatting\<lparr>rf_italic := Some True\<rparr>)\<rparr>),
      (DFont, High, Some 1,
         Some \<lparr>fix_type = ApplyTemplateFont,
               fix_templateFormatting = RunPayload (noRunFormatting\<lparr>rf_fontFamily := Some ''Calibri''\<rparr>)\<rparr>),
      (DTable, High, None, None)]
   \<and> last (compareSectionFormatting exampleUuid (Some mixedTemplate) mixedDraft)
        \<in> set (compareSectionFormatting exampleUuid (Some mixedTemplate) mixedDraft)
   \<and> fd_fix (last (compareSectionFormatting exampleUuid (Some mixedTemplate) mixedDraft)) = None
   \<and> fd_type (last (compareSectionFormatting exampleUuid (Some mixedTemplate) mixedDraft)) = DTable
   \<and> map fd_type (compareSectionFormatting exampleUuid (Some scenarioTemplate) scenarioDraft) = [DFont]
   \<and> map fd_severity (compareSectionFormatting exampleUuid (Some scenarioTemplate) scenarioDraft) = [Medium]
   \<and> map fd_fix (compareSectionFormatting exampleUuid (Some scenarioTemplate) scenarioDraft) =
       [Some \<lparr>fix_type = ApplyTemplateFont,
              fix_templateFormatting = RunPayload (noRunFormatting\<lparr>rf_bold := Some True\<rparr>)\<rparr>]
   \<and> map fd_fix (compareRun exampleUuid ''d'' 0 (hd (rp_runs scenarioTemplatePara))
          (hd (rp_runs scenarioDraftPara)) []) =
       [Some \<lparr>fix_type = ApplyTemplateFont,
              fix_templateFormatting = RunPayload (noRunFormatting\<lparr>rf_bold := Some True\<rparr>)\<rparr>]"
proof -
  define cmp where "cmp = compareSectionFormatting exampleUuid (Some mixedTemplate) mixedDraft"
  define scn where "scn = compareSectionFormatting exampleUuid (Some scenarioTemplate) scenarioDraft"
  define tRun where "tRun = hd (rp_runs scenarioTemplatePara)"
  define dRun where "dRun = hd (rp_runs scenarioDraftPara)"
  note T = fix_from_template[of exampleUuid mixedTemplate mixedDraft "last cmp" "Some mixedTemplate"
      mixedDraft tRun dRun "''d''" 0 "[]"]
  have x: "expectedSection mixedTemplate mixedDraft =
     [(DAlignment, Medium, Some 0,
         Some \<lparr>fix_type = ApplyTemplateFormatting,
               fix_templateFormatting =
                 ParagraphPayload (noParagraphFormatting\<lparr>pf_alignment := Some ''center''\<rparr>)\<rparr>),
      (DStyle, High, Some 0,
         Some \<lparr>fix_type = ApplyTemplateStyle,
               fix_templateFormatting =
                 ParagraphPayload
                   (noParagraphFormatting\<lparr>pf_alignment := Some ''center'', pf_indentLeft := Some (Num 720),
                      pf_spacingAfter := Some (Num 120), pf_styleId := Some ''Heading1''\<rparr>)\<rparr>),
      (DSpacing, Low, Some 0,
         Some \<lparr>fix_type = ApplyTemplateFormatting,
               fix_templateFormatting =
                 ParagraphPayload (noParagraphFormatting\<lparr>pf_spacingAfter := Some (Num 120)\<rparr>)\<rparr>),
      (DIndent, Low, Some 0,
         Some \<lparr>fix_type = ApplyTemplateFormatting,
               fix_templateFormatting =
                 ParagraphPayload (noParagraphFormatting\<lparr>pf_indentLeft := Some (Num 720)\<rparr>)\<rparr>),
      (DHeading, High, Some 0,
         Some \<lparr>fix_type = ApplyTemplateStyle,
               fix_templateFormatting =
                 ParagraphPayload
                   (noParagraphFormatting\<lparr>pf_alignment := Some ''center'', pf_indentLeft := Some (Num 720),
                      pf_spacingAfter := Some (Num 120), pf_styleId := Some ''Heading1''\<rparr>)\<rparr>),
      (DFont, Medium, Some 0,
         Some \<lparr>fix_type = ApplyTemplateFont,
               fix_templateFormatting = RunPayload (noRunFormatting\<lparr>rf_bold := Some True\<rparr>)\<rparr>),
      (DFont, Medium, Some 0,
         Some \<lparr>fix_type = ApplyTemplateFont,
               fix_templateFormatting = RunPayload (noRunFormatting\<lparr>rf_italic := Some False\<rparr>)\<rparr>),
      (DFont, High, Some 0,
         Some \<lparr>fix_type = ApplyTemplateFont,
               fix_templateFormatting = RunPayload (noRunFormatting\<lparr>rf_fontSize := Some (Num 14)\<rparr>)\<rparr>),
      (DFont, High, Some 0,
         Some \<lparr>fix_type = ApplyTemplateFont,
               fix_templateFormatting = RunPayload (noRunFormatting\<lparr>rf_fontFamily := Some ''Arial''\<rparr>)\<rparr>),
      (DFont, Medium, Some 1,
         Some \<lparr>fix_type = ApplyTemplateFont,
               fix_templateFormatting = RunPayload (noRunFormatting\<lparr>rf_italic := Some True\<rparr>)\<rparr>),
      (DFont, High, Some 1,
         Some \<lparr>fix_type = ApplyTemplateFont,
               fix_templateFormatting = RunPayload (noRunFormatting\<lparr>rf_fontFamily := Some ''Calibri''\<rparr>)\<rparr>),
      (DTable, High, None, None)]"
    by code_simp
  have c1: "map outcome cmp = expectedSection mixedTemplate mixedDraft"
    using T unfolding cmp_def by (rule conjunct1)
  have ne: "cmp \<noteq> []" using c1 unfolding x by auto
  then have m: "last cmp \<in> set cmp" by simp
  have n: "fd_fix (last cmp) = None"
    using arg_cong[OF c1[unfolded x], of last] ne by (simp add: last_map outcome_def)
  have ty: "fd_type (last cmp) = DTable"
    using T m n unfolding cmp_def[symmetric] by blast
  have t: "map fd_type scn = [DFont]" unfolding scn_def by code_simp
  have s: "map fd_severity scn = [Medium]" unfolding scn_def by code_simp
  have f: "map fd_fix scn = [Some \<lparr>fix_type = ApplyTemplateFont,
              fix_templateFormatting = RunPayload (noRunFormatting\<lparr>rf_bold := Some True\<rparr>)\<rparr>]"
    unfolding scn_def by code_simp
  have h1: "run_formatting tRun = noRunFormatting\<lparr>rf_bold := Some True, rf_fontSize := Some (Num 11)\<rparr>"
    unfolding tRun_def by (simp add: scenarioTemplatePara_def mkParagraph_def)
  have h2: "run_formatting dRun = noRunFormatting\<lparr>rf_bold := Some False, rf_fontSize := Some (Num 11)\<rparr>"
    unfolding dRun_def by (simp add: scenarioDraftPara_def mkParagraph_def)
  have "\<exists>e. compareRun exampleUuid ''d'' 0 tRun dRun [] = [] @ [e] \<and> fd_type e = DFont
                \<and> fd_severity e = Medium
                \<and> fd_fix e = Some \<lparr>fix_type = ApplyTemplateFont,
                      fix_templateFormatting = RunPayload (noRunFormatting\<lparr>rf_bold := Some True\<rparr>)\<rparr>"
    using T h1 h2 by blast
  then have r: "map fd_fix (compareRun exampleUuid ''d'' 0 tRun dRun []) =
       [Some \<lparr>fix_type = ApplyTemplateFont,
              fix_templateFormatting = RunPayload (noRunFormatting\<lparr>rf_bold := Some True\<rparr>)\<rparr>]"
    by auto
  show ?thesis
    using c1[unfolded x] m n ty t s f r unfolding cmp_def scn_def tRun_def dRun_def
    by (intro conjI)
qed

subsection \<open>Claim C7: a failed call gives a neutral result\<close>



subsection \<open>Claim C8: the alignment is a function of the two section lists\<close>

text \<open>
  C8: the alignment that the comparison view and the review dashboard compute does not
  depend on anything but the template and draft sections, neither on the issues of the
  analysis nor on the set of resolved sections that the same closures read; and
  \<open>matchSections\<close>, run a second time on the same lists, even into the map that the first
  run filled, yields the identical map.
\<close>

theorem alignment_deterministic:
  "alignmentOfPairs (sectionPairs ts ds iss1) = alignmentOfPairs (sectionPairs ts ds iss2)
   \<and> alignmentOfMatches (sectionMatches ts ds iss1 res1) = alignmentOfMatches (sectionMatches ts ds iss2 res2)
   \<and> matchLoop ts ds (matchSections ts ds) = matchSections ts ds"
proof (intro conjI)
  show "alignmentOfPairs (sectionPairs ts ds iss1) = alignmentOfPairs (sectionPairs ts ds iss2)"
    unfolding alignmentOfPairs_zip sectionPairs_templates sectionPairs_drafts ..
  show "alignmentOfMatches (sectionMatches ts ds iss1 res1) = alignmentOfMatches (sectionMatches ts ds iss2 res2)"
    unfolding alignmentOfMatches_zip sectionMatches_templates sectionMatches_drafts ..
  show "matchLoop ts ds (matchSections ts ds) = matchSections ts ds"
  proof -
    have "matchLoop ts ds (matchSections ts ds) = matchSections ts ds ++ matchLoop ts ds Map.empty"
      by (rule matchLoop_add)
    also have "\<dots> = matchSections ts ds"
      unfolding matchSections_def by (simp add: map_add_def fun_eq_iff split: option.splits)
    finally show ?thesis .
  qed
qed



subsection \<open>Claim C9: the similarity is symmetric\<close>

text \<open>
  C9: for all strings \<open>a\<close> and \<open>b\<close>, \<open>calculateSimilarity a b = calculateSimilarity b a\<close>.
\<close>

theorem calculateSimilarity_symmetric:
  "calculateSimilarity a b = calculateSimilarity b a"
  by (simp add: calculateSimilarity_def Let_def Int_commute Un_commute disj_commute conj_commute)


subsection \<open>Claim C10: the guard of the differ\<close>

text \<open>
  C10: with a null template section, or when the template or the draft section has no
  paragraph list, the differ returns the empty list. The guard is evaluated before any
  member of a paragraph is read, and past it every paragraph and run is read at an index
  below the length of its list: no call raises.
\<close>

theorem guard_returns_empty:
  "compareSectionFormatting uuid None draftSection = []
   \<and> (rs_paragraphs t = None \<longrightarrow> compareSectionFormatting uuid (Some t) draftSection = [])
   \<and> (rs_paragraphs draftSection = None \<longrightarrow> compareSectionFormatting uuid templateSection draftSection = [])"
  by (simp add: compareSectionFormatting_def split: option.splits)

theorem guard_returns_empty_witness:
  "rs_paragraphs (mkRichSection ''t'' None None) = None
   \<and> compareSectionFormatting exampleUuid (Some (mkRichSection ''t'' None None)) scenarioDraft = []
   \<and> compareSectionFormatting exampleUuid (Some scenarioTemplate) (mkRichSection ''t'' None None) = []
   \<and> compareSectionFormatting exampleUuid None scenarioDraft = []"
proof -
  have h: "rs_paragraphs (mkRichSection ''t'' None None) = None"
    by (simp add: mkRichSection_def)
  show ?thesis
    using guard_returns_empty[of exampleUuid scenarioDraft "mkRichSection ''t'' None None" "Some scenarioTemplate"]
      guard_returns_empty[of exampleUuid "mkRichSection ''t'' None None" "mkRichSection ''t'' None None" "Some scenarioTemplate"]
      h by simp
qed


end
